theory Spec2Isabelle
  imports Main "HOL-Library.Word"
begin

unbundle bit_operations_syntax

text \<open>
  A model of \<^verbatim>\<open>app.py\<close>, the travel planner: its four fetchers, the airport code
  table, the call of the language model and the body of \<^verbatim>\<open>main\<close>. The services the
  program talks to are a parameter, the world; what the program sends and shows is a list
  of events; an exception is a value.
\<close>

section \<open>Python values\<close>

subsection \<open>Strings\<close>

text \<open>
  A Python \<^verbatim>\<open>str\<close> is a sequence of Unicode code points, and \<^verbatim>\<open>len\<close> and slicing
  count code points. A string is therefore a list of code points; \<open>ustr\<close> embeds an
  ASCII literal of the source.
\<close>

type_synonym pystr = "nat list"

definition ustr :: "string \<Rightarrow> pystr" where
  "ustr s = map of_char s"

text \<open>
  \<^verbatim>\<open>str.upper()\<close> maps every code point to its full upper-case mapping, one to three
  code points, and concatenates. \<^verbatim>\<open>str.lower()\<close> does the same with the lower-case
  mapping, except for the capital sigma U+03A3, which becomes the final sigma U+03C2 or
  the small sigma U+03C3 by its neighbours. The mappings and the two character
  properties the sigma rule reads are those of Unicode 14.0.0, the database of
  CPython 3.11; they are written as tables:
  \<^item> \<open>(lo, hi, step, lo')\<close> maps the code points \<open>lo\<close>, \<open>lo + step\<close>, ... up to
    \<open>hi\<close> to \<open>lo'\<close>, \<open>lo' + step\<close>, ...;
  \<^item> a special entry gives the mapping of one code point, of several code points;
  \<^item> a code point in no entry is its own mapping;
  \<^item> \<open>(lo, hi)\<close> are the code points from \<open>lo\<close> to \<open>hi\<close> that have a property.
\<close>

definition upper_ranges :: "(nat \<times> nat \<times> nat \<times> nat) list" where
  "upper_ranges =
     [(97, 122, 1, 65), (181, 181, 1, 924), (224, 246, 1, 192), (248, 254, 1, 216),
      (255, 255, 1, 376), (257, 303, 2, 256), (305, 305, 1, 73), (307, 311, 2, 306),
      (314, 328, 2, 313), (331, 375, 2, 330), (378, 382, 2, 377), (383, 383, 1, 83),
      (384, 384, 1, 579), (387, 389, 2, 386), (392, 392, 1, 391), (396, 396, 1, 395),
      (402, 402, 1, 401), (405, 405, 1, 502), (409, 409, 1, 408), (410, 410, 1, 573),
      (414, 414, 1, 544), (417, 421, 2, 416), (424, 424, 1, 423), (429, 429, 1, 428),
      (432, 432, 1, 431), (436, 438, 2, 435), (441, 441, 1, 440), (445, 445, 1, 444),
      (447, 447, 1, 503), (453, 453, 1, 452), (454, 454, 1, 452), (456, 456, 1, 455),
      (457, 457, 1, 455), (459, 459, 1, 458), (460, 460, 1, 458), (462, 476, 2, 461),
      (477, 477, 1, 398), (479, 495, 2, 478), (498, 498, 1, 497), (499, 499, 1, 497),
      (501, 501, 1, 500), (505, 543, 2, 504), (547, 563, 2, 546), (572, 572, 1, 571),
      (575, 576, 1, 11390), (578, 578, 1, 577), (583, 591, 2, 582), (592, 592, 1, 11375),
      (593, 593, 1, 11373), (594, 594, 1, 11376), (595, 595, 1, 385), (596, 596, 1, 390),
      (598, 599, 1, 393), (601, 601, 1, 399), (603, 603, 1, 400), (604, 604, 1, 42923),
      (608, 608, 1, 403), (609, 609, 1, 42924), (611, 611, 1, 404), (613, 613, 1, 42893),
      (614, 614, 1, 42922), (616, 616, 1, 407), (617, 617, 1, 406), (618, 618, 1, 42926),
      (619, 619, 1, 11362), (620, 620, 1, 42925), (623, 623, 1, 412), (625, 625, 1, 11374),
      (626, 626, 1, 413), (629, 629, 1, 415), (637, 637, 1, 11364), (640, 640, 1, 422),
      (642, 642, 1, 42949), (643, 643, 1, 425), (647, 647, 1, 42929), (648, 648, 1, 430),
      (649, 649, 1, 580), (650, 651, 1, 433), (652, 652, 1, 581), (658, 658, 1, 439),
      (669, 669, 1, 42930), (670, 670, 1, 42928), (837, 837, 1, 921), (881, 883, 2, 880),
      (887, 887, 1, 886), (891, 893, 1, 1021), (940, 940, 1, 902), (941, 943, 1, 904),
      (945, 961, 1, 913), (962, 962, 1, 931), (963, 971, 1, 931), (972, 972, 1, 908),
      (973, 974, 1, 910), (976, 976, 1, 914), (977, 977, 1, 920), (981, 981, 1, 934),
      (982, 982, 1, 928), (983, 983, 1, 975), (985, 1007, 2, 984), (1008, 1008, 1, 922),
      (1009, 1009, 1, 929), (1010, 1010, 1, 1017), (1011, 1011, 1, 895), (1013, 1013, 1, 917),
      (1016, 1016, 1, 1015), (1019, 1019, 1, 1018), (1072, 1103, 1, 1040),
      (1104, 1119, 1, 1024), (1121, 1153, 2, 1120), (1163, 1215, 2, 1162),
      (1218, 1230, 2, 1217), (1231, 1231, 1, 1216), (1233, 1327, 2, 1232),
      (1377, 1414, 1, 1329), (4304, 4346, 1, 7312), (4349, 4351, 1, 7357),
      (5112, 5117, 1, 5104), (7296, 7296, 1, 1042), (7297, 7297, 1, 1044),
      (7298, 7298, 1, 1054), (7299, 7300, 1, 1057), (7301, 7301, 1, 1058),
      (7302, 7302, 1, 1066), (7303, 7303, 1, 1122), (7304, 7304, 1, 42570),
      (7545, 7545, 1, 42877), (7549, 7549, 1, 11363), (7566, 7566, 1, 42950),
      (7681, 7829, 2, 7680), (7835, 7835, 1, 7776), (7841, 7935, 2, 7840),
      (7936, 7943, 1, 7944), (7952, 7957, 1, 7960), (7968, 7975, 1, 7976),
      (7984, 7991, 1, 7992), (8000, 8005, 1, 8008), (8017, 8023, 2, 8025),
      (8032, 8039, 1, 8040), (8048, 8049, 1, 8122), (8050, 8053, 1, 8136),
      (8054, 8055, 1, 8154), (8056, 8057, 1, 8184), (8058, 8059, 1, 8170),
      (8060, 8061, 1, 8186), (8112, 8113, 1, 8120), (8126, 8126, 1, 921), (8144, 8145, 1, 8152),
      (8160, 8161, 1, 8168), (8165, 8165, 1, 8172), (8526, 8526, 1, 8498),
      (8560, 8575, 1, 8544), (8580, 8580, 1, 8579), (9424, 9449, 1, 9398),
      (11312, 11359, 1, 11264), (11361, 11361, 1, 11360), (11365, 11365, 1, 570),
      (11366, 11366, 1, 574), (11368, 11372, 2, 11367), (11379, 11379, 1, 11378),
      (11382, 11382, 1, 11381), (11393, 11491, 2, 11392), (11500, 11502, 2, 11499),
      (11507, 11507, 1, 11506), (11520, 11557, 1, 4256), (11559, 11559, 1, 4295),
      (11565, 11565, 1, 4301), (42561, 42605, 2, 42560), (42625, 42651, 2, 42624),
      (42787, 42799, 2, 42786), (42803, 42863, 2, 42802), (42874, 42876, 2, 42873),
      (42879, 42887, 2, 42878), (42892, 42892, 1, 42891), (42897, 42899, 2, 42896),
      (42900, 42900, 1, 42948), (42903, 42921, 2, 42902), (42933, 42947, 2, 42932),
      (42952, 42954, 2, 42951), (42961, 42961, 1, 42960), (42967, 42969, 2, 42966),
      (42998, 42998, 1, 42997), (43859, 43859, 1, 42931), (43888, 43967, 1, 5024),
      (65345, 65370, 1, 65313), (66600, 66639, 1, 66560), (66776, 66811, 1, 66736),
      (66967, 67003, 2, 66928), (66968, 66976, 2, 66929), (66980, 66992, 2, 66941),
      (66996, 67000, 2, 66957), (67004, 67004, 1, 66965), (68800, 68850, 1, 68736),
      (71872, 71903, 1, 71840), (93792, 93823, 1, 93760), (125218, 125251, 1, 125184)]"

definition upper_special :: "(nat \<times> nat list) list" where
  "upper_special =
     [(223, [83, 83]), (329, [700, 78]), (496, [74, 780]), (912, [921, 776, 769]),
      (944, [933, 776, 769]), (1415, [1333, 1362]), (7830, [72, 817]), (7831, [84, 776]),
      (7832, [87, 778]), (7833, [89, 778]), (7834, [65, 702]), (8016, [933, 787]),
      (8018, [933, 787, 768]), (8020, [933, 787, 769]), (8022, [933, 787, 834]),
      (8064, [7944, 921]), (8065, [7945, 921]), (8066, [7946, 921]), (8067, [7947, 921]),
      (8068, [7948, 921]), (8069, [7949, 921]), (8070, [7950, 921]), (8071, [7951, 921]),
      (8072, [7944, 921]), (8073, [7945, 921]), (8074, [7946, 921]), (8075, [7947, 921]),
      (8076, [7948, 921]), (8077, [7949, 921]), (8078, [7950, 921]), (8079, [7951, 921]),
      (8080, [7976, 921]), (8081, [7977, 921]), (8082, [7978, 921]), (8083, [7979, 921]),
      (8084, [7980, 921]), (8085, [7981, 921]), (8086, [7982, 921]), (8087, [7983, 921]),
      (8088, [7976, 921]), (8089, [7977, 921]), (8090, [7978, 921]), (8091, [7979, 921]),
      (8092, [7980, 921]), (8093, [7981, 921]), (8094, [7982, 921]), (8095, [7983, 921]),
      (8096, [8040, 921]), (8097, [8041, 921]), (8098, [8042, 921]), (8099, [8043, 921]),
      (8100, [8044, 921]), (8101, [8045, 921]), (8102, [8046, 921]), (8103, [8047, 921]),
      (8104, [8040, 921]), (8105, [8041, 921]), (8106, [8042, 921]), (8107, [8043, 921]),
      (8108, [8044, 921]), (8109, [8045, 921]), (8110, [8046, 921]), (8111, [8047, 921]),
      (8114, [8122, 921]), (8115, [913, 921]), (8116, [902, 921]), (8118, [913, 834]),
      (8119, [913, 834, 921]), (8124, [913, 921]), (8130, [8138, 921]), (8131, [919, 921]),
      (8132, [905, 921]), (8134, [919, 834]), (8135, [919, 834, 921]), (8140, [919, 921]),
      (8146, [921, 776, 768]), (8147, [921, 776, 769]), (8150, [921, 834]),
      (8151, [921, 776, 834]), (8162, [933, 776, 768]), (8163, [933, 776, 769]),
      (8164, [929, 787]), (8166, [933, 834]), (8167, [933, 776, 834]), (8178, [8186, 921]),
      (8179, [937, 921]), (8180, [911, 921]), (8182, [937, 834]), (8183, [937, 834, 921]),
      (8188, [937, 921]), (64256, [70, 70]), (64257, [70, 73]), (64258, [70, 76]),
      (64259, [70, 70, 73]), (64260, [70, 70, 76]), (64261, [83, 84]), (64262, [83, 84]),
      (64275, [1348, 1350]), (64276, [1348, 1333]), (64277, [1348, 1339]),
      (64278, [1358, 1350]), (64279, [1348, 1341])]"

definition lower_ranges :: "(nat \<times> nat \<times> nat \<times> nat) list" where
  "lower_ranges =
     [(65, 90, 1, 97), (192, 214, 1, 224), (216, 222, 1, 248), (256, 302, 2, 257),
      (306, 310, 2, 307), (313, 327, 2, 314), (330, 374, 2, 331), (376, 376, 1, 255),
      (377, 381, 2, 378), (385, 385, 1, 595), (386, 388, 2, 387), (390, 390, 1, 596),
      (391, 391, 1, 392), (393, 394, 1, 598), (395, 395, 1, 396), (398, 398, 1, 477),
      (399, 399, 1, 601), (400, 400, 1, 603), (401, 401, 1, 402), (403, 403, 1, 608),
      (404, 404, 1, 611), (406, 406, 1, 617), (407, 407, 1, 616), (408, 408, 1, 409),
      (412, 412, 1, 623), (413, 413, 1, 626), (415, 415, 1, 629), (416, 420, 2, 417),
      (422, 422, 1, 640), (423, 423, 1, 424), (425, 425, 1, 643), (428, 428, 1, 429),
      (430, 430, 1, 648), (431, 431, 1, 432), (433, 434, 1, 650), (435, 437, 2, 436),
      (439, 439, 1, 658), (440, 440, 1, 441), (444, 444, 1, 445), (452, 452, 1, 454),
      (453, 453, 1, 454), (455, 455, 1, 457), (456, 456, 1, 457), (458, 458, 1, 460),
      (459, 475, 2, 460), (478, 494, 2, 479), (497, 497, 1, 499), (498, 500, 2, 499),
      (502, 502, 1, 405), (503, 503, 1, 447), (504, 542, 2, 505), (544, 544, 1, 414),
      (546, 562, 2, 547), (570, 570, 1, 11365), (571, 571, 1, 572), (573, 573, 1, 410),
      (574, 574, 1, 11366), (577, 577, 1, 578), (579, 579, 1, 384), (580, 580, 1, 649),
      (581, 581, 1, 652), (582, 590, 2, 583), (880, 882, 2, 881), (886, 886, 1, 887),
      (895, 895, 1, 1011), (902, 902, 1, 940), (904, 906, 1, 941), (908, 908, 1, 972),
      (910, 911, 1, 973), (913, 929, 1, 945), (931, 939, 1, 963), (975, 975, 1, 983),
      (984, 1006, 2, 985), (1012, 1012, 1, 952), (1015, 1015, 1, 1016), (1017, 1017, 1, 1010),
      (1018, 1018, 1, 1019), (1021, 1023, 1, 891), (1024, 1039, 1, 1104), (1040, 1071, 1, 1072),
      (1120, 1152, 2, 1121), (1162, 1214, 2, 1163), (1216, 1216, 1, 1231),
      (1217, 1229, 2, 1218), (1232, 1326, 2, 1233), (1329, 1366, 1, 1377),
      (4256, 4293, 1, 11520), (4295, 4295, 1, 11559), (4301, 4301, 1, 11565),
      (5024, 5103, 1, 43888), (5104, 5109, 1, 5112), (7312, 7354, 1, 4304),
      (7357, 7359, 1, 4349), (7680, 7828, 2, 7681), (7838, 7838, 1, 223), (7840, 7934, 2, 7841),
      (7944, 7951, 1, 7936), (7960, 7965, 1, 7952), (7976, 7983, 1, 7968),
      (7992, 7999, 1, 7984), (8008, 8013, 1, 8000), (8025, 8031, 2, 8017),
      (8040, 8047, 1, 8032), (8072, 8079, 1, 8064), (8088, 8095, 1, 8080),
      (8104, 8111, 1, 8096), (8120, 8121, 1, 8112), (8122, 8123, 1, 8048),
      (8124, 8124, 1, 8115), (8136, 8139, 1, 8050), (8140, 8140, 1, 8131),
      (8152, 8153, 1, 8144), (8154, 8155, 1, 8054), (8168, 8169, 1, 8160),
      (8170, 8171, 1, 8058), (8172, 8172, 1, 8165), (8184, 8185, 1, 8056),
      (8186, 8187, 1, 8060), (8188, 8188, 1, 8179), (8486, 8486, 1, 969), (8490, 8490, 1, 107),
      (8491, 8491, 1, 229), (8498, 8498, 1, 8526), (8544, 8559, 1, 8560), (8579, 8579, 1, 8580),
      (9398, 9423, 1, 9424), (11264, 11311, 1, 11312), (11360, 11360, 1, 11361),
      (11362, 11362, 1, 619), (11363, 11363, 1, 7549), (11364, 11364, 1, 637),
      (11367, 11371, 2, 11368), (11373, 11373, 1, 593), (11374, 11374, 1, 625),
      (11375, 11375, 1, 592), (11376, 11376, 1, 594), (11378, 11378, 1, 11379),
      (11381, 11381, 1, 11382), (11390, 11391, 1, 575), (11392, 11490, 2, 11393),
      (11499, 11501, 2, 11500), (11506, 11506, 1, 11507), (42560, 42604, 2, 42561),
      (42624, 42650, 2, 42625), (42786, 42798, 2, 42787), (42802, 42862, 2, 42803),
      (42873, 42875, 2, 42874), (42877, 42877, 1, 7545), (42878, 42886, 2, 42879),
      (42891, 42891, 1, 42892), (42893, 42893, 1, 613), (42896, 42898, 2, 42897),
      (42902, 42920, 2, 42903), (42922, 42922, 1, 614), (42923, 42923, 1, 604),
      (42924, 42924, 1, 609), (42925, 42925, 1, 620), (42926, 42926, 1, 618),
      (42928, 42928, 1, 670), (42929, 42929, 1, 647), (42930, 42930, 1, 669),
      (42931, 42931, 1, 43859), (42932, 42946, 2, 42933), (42948, 42948, 1, 42900),
      (42949, 42949, 1, 642), (42950, 42950, 1, 7566), (42951, 42953, 2, 42952),
      (42960, 42960, 1, 42961), (42966, 42968, 2, 42967), (42997, 42997, 1, 42998),
      (65313, 65338, 1, 65345), (66560, 66599, 1, 66600), (66736, 66771, 1, 66776),
      (66928, 66964, 2, 66967), (66929, 66937, 2, 66968), (66941, 66953, 2, 66980),
      (66957, 66961, 2, 66996), (66965, 66965, 1, 67004), (68736, 68786, 1, 68800),
      (71840, 71871, 1, 71872), (93760, 93791, 1, 93792), (125184, 125217, 1, 125218)]"

definition lower_special :: "(nat \<times> nat list) list" where
  "lower_special =
     [(304, [105, 775])]"

text \<open>The properties Cased and Case_Ignorable.\<close>

definition cased_ranges :: "(nat \<times> nat) list" where
  "cased_ranges =
     [(65, 90), (97, 122), (170, 170), (181, 181), (186, 186), (192, 214), (216, 246),
      (248, 442), (444, 447), (452, 659), (661, 696), (704, 705), (736, 740), (837, 837),
      (880, 883), (886, 887), (890, 893), (895, 895), (902, 902), (904, 906), (908, 908),
      (910, 929), (931, 1013), (1015, 1153), (1162, 1327), (1329, 1366), (1376, 1416),
      (4256, 4293), (4295, 4295), (4301, 4301), (4304, 4346), (4349, 4351), (5024, 5109),
      (5112, 5117), (7296, 7304), (7312, 7354), (7357, 7359), (7424, 7615), (7680, 7957),
      (7960, 7965), (7968, 8005), (8008, 8013), (8016, 8023), (8025, 8025), (8027, 8027),
      (8029, 8029), (8031, 8061), (8064, 8116), (8118, 8124), (8126, 8126), (8130, 8132),
      (8134, 8140), (8144, 8147), (8150, 8155), (8160, 8172), (8178, 8180), (8182, 8188),
      (8305, 8305), (8319, 8319), (8336, 8348), (8450, 8450), (8455, 8455), (8458, 8467),
      (8469, 8469), (8473, 8477), (8484, 8484), (8486, 8486), (8488, 8488), (8490, 8493),
      (8495, 8500), (8505, 8505), (8508, 8511), (8517, 8521), (8526, 8526), (8544, 8575),
      (8579, 8580), (9398, 9449), (11264, 11492), (11499, 11502), (11506, 11507),
      (11520, 11557), (11559, 11559), (11565, 11565), (42560, 42605), (42624, 42653),
      (42786, 42887), (42891, 42894), (42896, 42954), (42960, 42961), (42963, 42963),
      (42965, 42969), (42997, 42998), (43000, 43002), (43824, 43866), (43868, 43880),
      (43888, 43967), (64256, 64262), (64275, 64279), (65313, 65338), (65345, 65370),
      (66560, 66639), (66736, 66771), (66776, 66811), (66928, 66938), (66940, 66954),
      (66956, 66962), (66964, 66965), (66967, 66977), (66979, 66993), (66995, 67001),
      (67003, 67004), (67456, 67456), (67459, 67461), (67463, 67504), (67506, 67514),
      (68736, 68786), (68800, 68850), (71840, 71903), (93760, 93823), (119808, 119892),
      (119894, 119964), (119966, 119967), (119970, 119970), (119973, 119974), (119977, 119980),
      (119982, 119993), (119995, 119995), (119997, 120003), (120005, 120069), (120071, 120074),
      (120077, 120084), (120086, 120092), (120094, 120121), (120123, 120126), (120128, 120132),
      (120134, 120134), (120138, 120144), (120146, 120485), (120488, 120512), (120514, 120538),
      (120540, 120570), (120572, 120596), (120598, 120628), (120630, 120654), (120656, 120686),
      (120688, 120712), (120714, 120744), (120746, 120770), (120772, 120779), (122624, 122633),
      (122635, 122654), (125184, 125251), (127280, 127305), (127312, 127337), (127344, 127369)]"

definition case_ignorable_ranges :: "(nat \<times> nat) list" where
  "case_ignorable_ranges =
     [(39, 39), (46, 46), (58, 58), (94, 94), (96, 96), (168, 168), (173, 173), (175, 175),
      (180, 180), (183, 184), (688, 879), (884, 885), (890, 890), (900, 901), (903, 903),
      (1155, 1161), (1369, 1369), (1375, 1375), (1425, 1469), (1471, 1471), (1473, 1474),
      (1476, 1477), (1479, 1479), (1524, 1524), (1536, 1541), (1552, 1562), (1564, 1564),
      (1600, 1600), (1611, 1631), (1648, 1648), (1750, 1757), (1759, 1768), (1770, 1773),
      (1807, 1807), (1809, 1809), (1840, 1866), (1958, 1968), (2027, 2037), (2042, 2042),
      (2045, 2045), (2070, 2093), (2137, 2139), (2184, 2184), (2192, 2193), (2200, 2207),
      (2249, 2306), (2362, 2362), (2364, 2364), (2369, 2376), (2381, 2381), (2385, 2391),
      (2402, 2403), (2417, 2417), (2433, 2433), (2492, 2492), (2497, 2500), (2509, 2509),
      (2530, 2531), (2558, 2558), (2561, 2562), (2620, 2620), (2625, 2626), (2631, 2632),
      (2635, 2637), (2641, 2641), (2672, 2673), (2677, 2677), (2689, 2690), (2748, 2748),
      (2753, 2757), (2759, 2760), (2765, 2765), (2786, 2787), (2810, 2815), (2817, 2817),
      (2876, 2876), (2879, 2879), (2881, 2884), (2893, 2893), (2901, 2902), (2914, 2915),
      (2946, 2946), (3008, 3008), (3021, 3021), (3072, 3072), (3076, 3076), (3132, 3132),
      (3134, 3136), (3142, 3144), (3146, 3149), (3157, 3158), (3170, 3171), (3201, 3201),
      (3260, 3260), (3263, 3263), (3270, 3270), (3276, 3277), (3298, 3299), (3328, 3329),
      (3387, 3388), (3393, 3396), (3405, 3405), (3426, 3427), (3457, 3457), (3530, 3530),
      (3538, 3540), (3542, 3542), (3633, 3633), (3636, 3642), (3654, 3662), (3761, 3761),
      (3764, 3772), (3782, 3782), (3784, 3789), (3864, 3865), (3893, 3893), (3895, 3895),
      (3897, 3897), (3953, 3966), (3968, 3972), (3974, 3975), (3981, 3991), (3993, 4028),
      (4038, 4038), (4141, 4144), (4146, 4151), (4153, 4154), (4157, 4158), (4184, 4185),
      (4190, 4192), (4209, 4212), (4226, 4226), (4229, 4230), (4237, 4237), (4253, 4253),
      (4348, 4348), (4957, 4959), (5906, 5908), (5938, 5939), (5970, 5971), (6002, 6003),
      (6068, 6069), (6071, 6077), (6086, 6086), (6089, 6099), (6103, 6103), (6109, 6109),
      (6155, 6159), (6211, 6211), (6277, 6278), (6313, 6313), (6432, 6434), (6439, 6440),
      (6450, 6450), (6457, 6459), (6679, 6680), (6683, 6683), (6742, 6742), (6744, 6750),
      (6752, 6752), (6754, 6754), (6757, 6764), (6771, 6780), (6783, 6783), (6823, 6823),
      (6832, 6862), (6912, 6915), (6964, 6964), (6966, 6970), (6972, 6972), (6978, 6978),
      (7019, 7027), (7040, 7041), (7074, 7077), (7080, 7081), (7083, 7085), (7142, 7142),
      (7144, 7145), (7149, 7149), (7151, 7153), (7212, 7219), (7222, 7223), (7288, 7293),
      (7376, 7378), (7380, 7392), (7394, 7400), (7405, 7405), (7412, 7412), (7416, 7417),
      (7468, 7530), (7544, 7544), (7579, 7679), (8125, 8125), (8127, 8129), (8141, 8143),
      (8157, 8159), (8173, 8175), (8189, 8190), (8203, 8207), (8216, 8217), (8228, 8228),
      (8231, 8231), (8234, 8238), (8288, 8292), (8294, 8303), (8305, 8305), (8319, 8319),
      (8336, 8348), (8400, 8432), (11388, 11389), (11503, 11505), (11631, 11631),
      (11647, 11647), (11744, 11775), (11823, 11823), (12293, 12293), (12330, 12333),
      (12337, 12341), (12347, 12347), (12441, 12446), (12540, 12542), (40981, 40981),
      (42232, 42237), (42508, 42508), (42607, 42610), (42612, 42621), (42623, 42623),
      (42652, 42655), (42736, 42737), (42752, 42785), (42864, 42864), (42888, 42890),
      (42994, 42996), (43000, 43001), (43010, 43010), (43014, 43014), (43019, 43019),
      (43045, 43046), (43052, 43052), (43204, 43205), (43232, 43249), (43263, 43263),
      (43302, 43309), (43335, 43345), (43392, 43394), (43443, 43443), (43446, 43449),
      (43452, 43453), (43471, 43471), (43493, 43494), (43561, 43566), (43569, 43570),
      (43573, 43574), (43587, 43587), (43596, 43596), (43632, 43632), (43644, 43644),
      (43696, 43696), (43698, 43700), (43703, 43704), (43710, 43711), (43713, 43713),
      (43741, 43741), (43756, 43757), (43763, 43764), (43766, 43766), (43867, 43871),
      (43881, 43883), (44005, 44005), (44008, 44008), (44013, 44013), (64286, 64286),
      (64434, 64450), (65024, 65039), (65043, 65043), (65056, 65071), (65106, 65106),
      (65109, 65109), (65279, 65279), (65287, 65287), (65294, 65294), (65306, 65306),
      (65342, 65342), (65344, 65344), (65392, 65392), (65438, 65439), (65507, 65507),
      (65529, 65531), (66045, 66045), (66272, 66272), (66422, 66426), (67456, 67461),
      (67463, 67504), (67506, 67514), (68097, 68099), (68101, 68102), (68108, 68111),
      (68152, 68154), (68159, 68159), (68325, 68326), (68900, 68903), (69291, 69292),
      (69446, 69456), (69506, 69509), (69633, 69633), (69688, 69702), (69744, 69744),
      (69747, 69748), (69759, 69761), (69811, 69814), (69817, 69818), (69821, 69821),
      (69826, 69826), (69837, 69837), (69888, 69890), (69927, 69931), (69933, 69940),
      (70003, 70003), (70016, 70017), (70070, 70078), (70089, 70092), (70095, 70095),
      (70191, 70193), (70196, 70196), (70198, 70199), (70206, 70206), (70367, 70367),
      (70371, 70378), (70400, 70401), (70459, 70460), (70464, 70464), (70502, 70508),
      (70512, 70516), (70712, 70719), (70722, 70724), (70726, 70726), (70750, 70750),
      (70835, 70840), (70842, 70842), (70847, 70848), (70850, 70851), (71090, 71093),
      (71100, 71101), (71103, 71104), (71132, 71133), (71219, 71226), (71229, 71229),
      (71231, 71232), (71339, 71339), (71341, 71341), (71344, 71349), (71351, 71351),
      (71453, 71455), (71458, 71461), (71463, 71467), (71727, 71735), (71737, 71738),
      (71995, 71996), (71998, 71998), (72003, 72003), (72148, 72151), (72154, 72155),
      (72160, 72160), (72193, 72202), (72243, 72248), (72251, 72254), (72263, 72263),
      (72273, 72278), (72281, 72283), (72330, 72342), (72344, 72345), (72752, 72758),
      (72760, 72765), (72767, 72767), (72850, 72871), (72874, 72880), (72882, 72883),
      (72885, 72886), (73009, 73014), (73018, 73018), (73020, 73021), (73023, 73029),
      (73031, 73031), (73104, 73105), (73109, 73109), (73111, 73111), (73459, 73460),
      (78896, 78904), (92912, 92916), (92976, 92982), (92992, 92995), (94031, 94031),
      (94095, 94111), (94176, 94177), (94179, 94180), (110576, 110579), (110581, 110587),
      (110589, 110590), (113821, 113822), (113824, 113827), (118528, 118573), (118576, 118598),
      (119143, 119145), (119155, 119170), (119173, 119179), (119210, 119213), (119362, 119364),
      (121344, 121398), (121403, 121452), (121461, 121461), (121476, 121476), (121499, 121503),
      (121505, 121519), (122880, 122886), (122888, 122904), (122907, 122913), (122915, 122916),
      (122918, 122922), (123184, 123197), (123566, 123566), (123628, 123631), (125136, 125142),
      (125252, 125259), (127995, 127999), (917505, 917505), (917536, 917631), (917760, 917999)]"

definition case_map ::
  "(nat \<times> nat list) list \<Rightarrow> (nat \<times> nat \<times> nat \<times> nat) list \<Rightarrow> nat \<Rightarrow> nat list" where
  "case_map special ranges c =
     (case map_of special c of
        Some r \<Rightarrow> r
      | None \<Rightarrow>
          (case find (\<lambda>(lo, hi, step, lo'). lo \<le> c \<and> c \<le> hi \<and> (c - lo) mod step = 0) ranges of
             Some (lo, hi, step, lo') \<Rightarrow> [lo' + (c - lo)]
           | None \<Rightarrow> [c]))"

definition in_ranges :: "(nat \<times> nat) list \<Rightarrow> nat \<Rightarrow> bool" where
  "in_ranges ranges c = list_ex (\<lambda>(lo, hi). lo \<le> c \<and> c \<le> hi) ranges"

definition py_lower_cp :: "nat \<Rightarrow> nat list" where
  "py_lower_cp = case_map lower_special lower_ranges"

definition py_upper_cp :: "nat \<Rightarrow> nat list" where
  "py_upper_cp = case_map upper_special upper_ranges"

definition cased :: "nat \<Rightarrow> bool" where
  "cased = in_ranges cased_ranges"

definition case_ignorable :: "nat \<Rightarrow> bool" where
  "case_ignorable = in_ranges case_ignorable_ranges"

text \<open>
  The capital sigma at a position is final when the nearest character before it that is
  not case-ignorable exists and is cased, and the nearest such character after it does
  not exist or is not cased. \<open>seen\<close> holds the characters before the position, the
  nearest first.
\<close>

definition final_sigma :: "pystr \<Rightarrow> pystr \<Rightarrow> bool" where
  "final_sigma seen rest =
     ((case dropWhile case_ignorable seen of [] \<Rightarrow> False | p # ps \<Rightarrow> cased p) \<and>
      (case dropWhile case_ignorable rest of [] \<Rightarrow> True | n # ns \<Rightarrow> \<not> cased n))"

fun lower_from :: "pystr \<Rightarrow> pystr \<Rightarrow> pystr" where
  "lower_from seen [] = []"
| "lower_from seen (c # rest) =
     (if c = 931 then [if final_sigma seen rest then 962 else 963] else py_lower_cp c)
       @ lower_from (c # seen) rest"

definition py_lower :: "pystr \<Rightarrow> pystr" where
  "py_lower s = lower_from [] s"

definition py_upper :: "pystr \<Rightarrow> pystr" where
  "py_upper s = concat (map py_upper_cp s)"

subsection \<open>Parsed JSON\<close>

text \<open>
  What \<^verbatim>\<open>response.json()\<close> returns: \<^verbatim>\<open>None\<close>, a bool, an int, a float, a string,
  a list or a dict with string keys. A float is its IEEE-754 bit pattern. A dict is an
  association list read with \<open>map_of\<close>: a key of a dict has one value, and of
  several pairs with the same key only the first is read.
\<close>

type_synonym pyfloat = "64 word"

datatype json =
    JNull
  | JBool bool
  | JInt int
  | JFloat pyfloat
  | JStr pystr
  | JArr "json list"
  | JObj "(pystr \<times> json) list"

text \<open>The exceptions the operations below raise.\<close>

datatype py_exn =
    ConnectionError
  | HTTPError
  | JSONDecodeError
  | KeyError
  | IndexError
  | TypeError
  | AttributeError
  | ValueError
  | OverflowError
  | ServiceError

text \<open>
  A statement that raises ends the block it is in: the rest runs only on a value.
\<close>

definition and_then :: "py_exn + 'a \<Rightarrow> ('a \<Rightarrow> py_exn + 'b) \<Rightarrow> py_exn + 'b" where
  "and_then r f = (case r of Inl e \<Rightarrow> Inl e | Inr x \<Rightarrow> f x)"

text \<open>Truth value of an object in \<^verbatim>\<open>if x:\<close>; both float zeros are false.\<close>

fun truthy :: "json \<Rightarrow> bool" where
  "truthy JNull = False"
| "truthy (JBool b) = b"
| "truthy (JInt i) = (i \<noteq> 0)"
| "truthy (JFloat f) = (push_bit 1 f \<noteq> 0)"
| "truthy (JStr s) = (s \<noteq> [])"
| "truthy (JArr xs) = (xs \<noteq> [])"
| "truthy (JObj kv) = (kv \<noteq> [])"

text \<open>\<^verbatim>\<open>d.get(k, default)\<close> on a dict.\<close>

definition dict_get :: "(pystr \<times> json) list \<Rightarrow> pystr \<Rightarrow> json \<Rightarrow> json" where
  "dict_get kv k d = (case map_of kv k of None \<Rightarrow> d | Some v \<Rightarrow> v)"

text \<open>
  \<^verbatim>\<open>x.get(k, default)\<close> on any parsed value: only a dict has the attribute
  \<^verbatim>\<open>get\<close>.
\<close>

fun py_get :: "json \<Rightarrow> pystr \<Rightarrow> json \<Rightarrow> py_exn + json" where
  "py_get (JObj kv) k d = Inr (dict_get kv k d)"
| "py_get _ k d = Inl AttributeError"

text \<open>
  \<^verbatim>\<open>x[0]\<close>: the first item of a list, the first character of a string; a dict of
  string keys has no key \<^verbatim>\<open>0\<close>; nothing else is subscriptable.
\<close>

fun py_index0 :: "json \<Rightarrow> py_exn + json" where
  "py_index0 (JArr (x # xs)) = Inr x"
| "py_index0 (JArr []) = Inl IndexError"
| "py_index0 (JStr (c # cs)) = Inr (JStr [c])"
| "py_index0 (JStr []) = Inl IndexError"
| "py_index0 (JObj kv) = Inl KeyError"
| "py_index0 _ = Inl TypeError"

text \<open>\<^verbatim>\<open>x[k]\<close> for a string key \<^verbatim>\<open>k\<close>.\<close>

fun py_subscript :: "json \<Rightarrow> pystr \<Rightarrow> py_exn + json" where
  "py_subscript (JObj kv) k = (case map_of kv k of None \<Rightarrow> Inl KeyError | Some v \<Rightarrow> Inr v)"
| "py_subscript _ k = Inl TypeError"

text \<open>
  \<^verbatim>\<open>for item in x[:n]\<close>: the items of the slice. A list gives its first \<open>n\<close> items,
  a string its first \<open>n\<close> characters as one-character strings; slicing anything else
  raises (a dict raises TypeError up to Python 3.11 and KeyError from 3.12 on; the kind
  of the exception only shows in the error notice).
\<close>

fun py_slice_items :: "nat \<Rightarrow> json \<Rightarrow> py_exn + json list" where
  "py_slice_items n (JArr xs) = Inr (take n xs)"
| "py_slice_items n (JStr s) = Inr (map (\<lambda>c. JStr [c]) (take n s))"
| "py_slice_items n _ = Inl TypeError"

section \<open>The outside world\<close>

text \<open>
  The four HTTP requests of the program, by what varies in them: the weather and
  geocoding queries carry the city, the Overpass query the radius and the coordinates,
  the flights query the two airport codes.
\<close>

datatype request =
    WeatherReq pystr
  | GeocodeReq pystr
  | OverpassReq nat pyfloat pyfloat
  | FlightsReq pystr pystr

text \<open>
  What a call of \<^verbatim>\<open>requests.get\<close> or \<^verbatim>\<open>requests.post\<close> meets: no reply (the call
  raises), or a reply with a status code and a body that is JSON (\<open>Some\<close>) or not
  (\<open>None\<close>).
\<close>

datatype http_reply =
    NoReply
  | Reply nat "json option"

text \<open>
  The world answers requests and the language model; it also holds the two conversions
  of \<^verbatim>\<open>float()\<close> that are floating-point arithmetic: parsing a string (\<open>None\<close> is
  ValueError) and rounding an int (\<open>None\<close> is OverflowError).
\<close>

record world =
  respond :: "request \<Rightarrow> http_reply"
  llm_invoke :: "pystr \<Rightarrow> int \<Rightarrow> pystr \<Rightarrow> py_exn + pystr"
  str_to_float :: "pystr \<Rightarrow> pyfloat option"
  int_to_float :: "int \<Rightarrow> pyfloat option"

text \<open>
  The three lines every fetcher starts with:
  \<^verbatim>\<open>response = requests.get(...); response.raise_for_status(); data = response.json()\<close>.
  \<^verbatim>\<open>raise_for_status()\<close> raises for the status codes from 400 to 599 and for no other.
\<close>

fun fetch_json :: "http_reply \<Rightarrow> py_exn + json" where
  "fetch_json NoReply = Inl ConnectionError"
| "fetch_json (Reply status body) =
     (if 400 \<le> status \<and> status < 600 then Inl HTTPError
      else case body of None \<Rightarrow> Inl JSONDecodeError | Some j \<Rightarrow> Inr j)"

text \<open>\<^verbatim>\<open>float(x)\<close>; 1.0 is \<open>0x3FF0000000000000\<close>.\<close>

fun py_float :: "world \<Rightarrow> json \<Rightarrow> py_exn + pyfloat" where
  "py_float w (JStr s) = (case str_to_float w s of None \<Rightarrow> Inl ValueError | Some f \<Rightarrow> Inr f)"
| "py_float w (JInt i) = (case int_to_float w i of None \<Rightarrow> Inl OverflowError | Some f \<Rightarrow> Inr f)"
| "py_float w (JFloat f) = Inr f"
| "py_float w (JBool b) = Inr (if b then 0x3FF0000000000000 else 0)"
| "py_float w _ = Inl TypeError"

text \<open>
  What the program does that a user or a server can observe, in order: the requests it
  sends, the call of the language model, and the Streamlit calls. A written line is a
  list of pieces: literal text of the source, an interpolated value, a string.
\<close>

datatype heading = WeatherInformation | YourTripPlan | HotelOptions | FlightOptions

datatype piece = Lit string | Val json | Str pystr

datatype event =
    Request request
  | LlmInvoke pystr int pystr
  | StError string py_exn
  | StSubheader heading
  | StWrite "piece list"
  | StWarning string

section \<open>Weather Fetcher and Geocoder\<close>

definition get_weather_data :: "world \<Rightarrow> pystr \<Rightarrow> event list \<times> json" where
  "get_weather_data w city =
     (case fetch_json (respond w (WeatherReq city)) of
        Inr data \<Rightarrow> ([Request (WeatherReq city)], data)
      | Inl e \<Rightarrow>
          ([Request (WeatherReq city), StError ''Error fetching weather data: '' e], JObj []))"

text \<open>
  \<^verbatim>\<open>float(data[0]["lat"]), float(data[0]["lon"])\<close>, evaluated left to right.
\<close>

definition first_coordinates :: "world \<Rightarrow> json \<Rightarrow> py_exn + pyfloat \<times> pyfloat" where
  "first_coordinates w data =
     and_then (py_index0 data) (\<lambda>d0.
     and_then (py_subscript d0 (ustr ''lat'')) (\<lambda>la.
     and_then (py_float w la) (\<lambda>lat.
     and_then (py_index0 data) (\<lambda>d1.
     and_then (py_subscript d1 (ustr ''lon'')) (\<lambda>lo.
     and_then (py_float w lo) (\<lambda>lon. Inr (lat, lon)))))))"

definition get_city_coordinates ::
  "world \<Rightarrow> pystr \<Rightarrow> event list \<times> (pyfloat option \<times> pyfloat option)" where
  "get_city_coordinates w city =
     (case (case fetch_json (respond w (GeocodeReq city)) of
              Inl e \<Rightarrow> Inl e
            | Inr data \<Rightarrow>
                if truthy data
                then (case first_coordinates w data of
                        Inl e \<Rightarrow> Inl e
                      | Inr (lat, lon) \<Rightarrow> Inr (Some lat, Some lon))
                else Inr (None, None)) of
        Inr r \<Rightarrow> ([Request (GeocodeReq city)], r)
      | Inl e \<Rightarrow>
          ([Request (GeocodeReq city), StError ''Error fetching city coordinates: '' e],
           (None, None)))"

section \<open>Hotel Finder\<close>

text \<open>
  The hotel dict and its two nested dicts, with the keys of the source: \<^verbatim>\<open>street\<close>,
  \<^verbatim>\<open>city\<close>, \<^verbatim>\<open>country\<close>; \<^verbatim>\<open>lat\<close>, \<^verbatim>\<open>lon\<close>; \<^verbatim>\<open>name\<close>, \<^verbatim>\<open>address\<close>,
  \<^verbatim>\<open>stars\<close>, \<^verbatim>\<open>phone\<close>, \<^verbatim>\<open>website\<close>, \<^verbatim>\<open>coordinates\<close>.
\<close>

record address =
  addr_street :: json
  addr_city :: json
  addr_country :: json

record coordinates =
  coord_lat :: json
  coord_lon :: json

record hotel =
  hotel_name :: json
  hotel_address :: address
  hotel_stars :: json
  hotel_phone :: json
  hotel_website :: json
  hotel_coordinates :: coordinates

text \<open>
  The dict literal of the loop body, for an element \<open>el\<close> and its tags; every value
  is what the response holds under the key, or the default.
\<close>

definition hotel_record :: "pystr \<Rightarrow> (pystr \<times> json) list \<Rightarrow> (pystr \<times> json) list \<Rightarrow> hotel" where
  "hotel_record city el tags =
     \<lparr>hotel_name = dict_get tags (ustr ''name'') (JStr (ustr ''Unnamed Hotel'')),
      hotel_address =
        \<lparr>addr_street = dict_get tags (ustr ''addr:street'') (JStr (ustr ''Street not available'')),
         addr_city = dict_get tags (ustr ''addr:city'') (JStr city),
         addr_country = dict_get tags (ustr ''addr:country'') (JStr (ustr ''Country not available''))\<rparr>,
      hotel_stars = dict_get tags (ustr ''stars'') (JStr (ustr ''N/A'')),
      hotel_phone = dict_get tags (ustr ''phone'') (JStr (ustr ''Phone not available'')),
      hotel_website = dict_get tags (ustr ''website'') (JStr (ustr ''Website not available'')),
      hotel_coordinates =
        \<lparr>coord_lat = dict_get el (ustr ''lat'') JNull,
         coord_lon = dict_get el (ustr ''lon'') JNull\<rparr>\<rparr>"

text \<open>
  \<^verbatim>\<open>tags = element.get("tags", {})\<close> and the record: \<^verbatim>\<open>tags.get\<close> raises unless the
  tags are a dict.
\<close>

fun build_hotel :: "pystr \<Rightarrow> json \<Rightarrow> py_exn + hotel" where
  "build_hotel city (JObj el) =
     (case dict_get el (ustr ''tags'') (JObj []) of
        JObj tags \<Rightarrow> Inr (hotel_record city el tags)
      | _ \<Rightarrow> Inl AttributeError)"
| "build_hotel city _ = Inl AttributeError"

text \<open>
  The body of the \<^verbatim>\<open>for\<close> loop over the sliced elements, with the list \<open>hotels\<close>
  built so far; \<^verbatim>\<open>break\<close> leaves the loop with three records.
\<close>

fun hotel_loop :: "pystr \<Rightarrow> json list \<Rightarrow> hotel list \<Rightarrow> py_exn + hotel list" where
  "hotel_loop city [] hotels = Inr hotels"
| "hotel_loop city (element # rest) hotels =
     and_then (py_get element (ustr ''type'') JNull) (\<lambda>t.
       if t = JStr (ustr ''node'')
       then and_then (build_hotel city element) (\<lambda>h.
              if length (hotels @ [h]) \<ge> 3 then Inr (hotels @ [h])
              else hotel_loop city rest (hotels @ [h]))
       else hotel_loop city rest hotels)"

text \<open>The \<^verbatim>\<open>try\<close> block after \<^verbatim>\<open>data = response.json()\<close>.\<close>

definition hotels_of_response :: "pystr \<Rightarrow> json \<Rightarrow> py_exn + hotel list" where
  "hotels_of_response city data =
     and_then (py_get data (ustr ''elements'') (JArr [])) (\<lambda>els.
     and_then (py_slice_items 5 els) (\<lambda>items. hotel_loop city items []))"

definition search_hotels :: "world \<Rightarrow> pystr \<Rightarrow> event list \<times> hotel list" where
  "search_hotels w city =
     (case get_city_coordinates w city of
        (log, Some lt, Some ln) \<Rightarrow>
          (case and_then (fetch_json (respond w (OverpassReq 5000 lt ln)))
                  (hotels_of_response city) of
             Inr hotels \<Rightarrow> (log @ [Request (OverpassReq 5000 lt ln)], hotels)
           | Inl e \<Rightarrow>
               (log @ [Request (OverpassReq 5000 lt ln),
                       StError ''Error fetching hotel data: '' e], []))
      | (log, _, _) \<Rightarrow> (log, []))"

section \<open>Flight Finder\<close>

record flight =
  airline :: json
  flight_number :: json
  departure :: json
  arrival :: json

text \<open>\<^verbatim>\<open>flight.get(k1, {}).get(k2, default)\<close>.\<close>

definition nested_get :: "json \<Rightarrow> pystr \<Rightarrow> pystr \<Rightarrow> string \<Rightarrow> py_exn + json" where
  "nested_get entry k1 k2 d =
     and_then (py_get entry k1 (JObj [])) (\<lambda>sub. py_get sub k2 (JStr (ustr d)))"

definition build_flight :: "json \<Rightarrow> py_exn + flight" where
  "build_flight entry =
     and_then (nested_get entry (ustr ''airline'') (ustr ''name'') ''Unknown Airline'') (\<lambda>a.
     and_then (nested_get entry (ustr ''flight'') (ustr ''number'') ''Unknown'') (\<lambda>n.
     and_then (nested_get entry (ustr ''departure'') (ustr ''scheduled'') ''Unknown'') (\<lambda>d.
     and_then (nested_get entry (ustr ''arrival'') (ustr ''scheduled'') ''Unknown'') (\<lambda>r.
       Inr \<lparr>airline = a, flight_number = n, departure = d, arrival = r\<rparr>))))"

fun flight_loop :: "json list \<Rightarrow> flight list \<Rightarrow> py_exn + flight list" where
  "flight_loop [] flights = Inr flights"
| "flight_loop (entry # rest) flights =
     and_then (build_flight entry) (\<lambda>f. flight_loop rest (flights @ [f]))"

definition flights_of_response :: "json \<Rightarrow> py_exn + flight list" where
  "flights_of_response data =
     and_then (py_get data (ustr ''data'') (JArr [])) (\<lambda>entries.
     and_then (py_slice_items 3 entries) (\<lambda>items. flight_loop items []))"

definition search_flights :: "world \<Rightarrow> pystr \<Rightarrow> pystr \<Rightarrow> event list \<times> flight list" where
  "search_flights w origin destination =
     (case and_then (fetch_json (respond w (FlightsReq origin destination)))
             flights_of_response of
        Inr flights \<Rightarrow> ([Request (FlightsReq origin destination)], flights)
      | Inl e \<Rightarrow>
          ([Request (FlightsReq origin destination),
            StError ''Error fetching flight data: '' e], []))"

section \<open>Airport Code Resolver\<close>

text \<open>The dictionary literal of \<^verbatim>\<open>get_airport_code\<close>, in the order of the source.\<close>

definition airport_codes :: "(pystr \<times> pystr) list" where
  "airport_codes =
     [(ustr ''tokyo'', ustr ''HND''),
      (ustr ''osaka'', ustr ''KIX''),
      (ustr ''kyoto'', ustr ''KIX''),
      (ustr ''delhi'', ustr ''DEL''),
      (ustr ''mumbai'', ustr ''BOM''),
      (ustr ''udaipur'', ustr ''UDR''),
      (ustr ''london'', ustr ''LHR''),
      (ustr ''paris'', ustr ''CDG''),
      (ustr ''new york'', ustr ''JFK''),
      (ustr ''singapore'', ustr ''SIN''),
      (ustr ''bangkok'', ustr ''BKK'')]"

text \<open>
  \<^verbatim>\<open>return airport_codes.get(city.lower(), city[:3].upper())\<close>. No operation here
  can raise on a string, so the result is a plain string.
\<close>

definition get_airport_code :: "pystr \<Rightarrow> pystr" where
  "get_airport_code city =
     (case map_of airport_codes (py_lower city) of
        Some code \<Rightarrow> code
      | None \<Rightarrow> py_upper (take 3 city))"

section \<open>Trip Narrative Generator\<close>

text \<open>
  \<^verbatim>\<open>response = llm.invoke(messages); return response.content\<close>, with no
  \<^verbatim>\<open>try\<close> around the call: what the call raises, the function raises.
\<close>

definition generate_trip_plan ::
  "world \<Rightarrow> pystr \<Rightarrow> int \<Rightarrow> pystr \<Rightarrow> event list \<times> (py_exn + pystr)" where
  "generate_trip_plan w city days month =
     ([LlmInvoke city days month], llm_invoke w city days month)"

section \<open>Presentation Layer\<close>

text \<open>
  The block \<^verbatim>\<open>if weather_data:\<close> of \<^verbatim>\<open>main\<close>. The subheader is written before the
  two values are read, and nothing catches what reading them raises. There is no
  \<^verbatim>\<open>else\<close>. The temperature line ends with the three characters the source file
  holds after the value: U+00AC, U+221E and \<^verbatim>\<open>C\<close>.
\<close>

definition weather_section :: "json \<Rightarrow> event list \<times> (py_exn + unit)" where
  "weather_section weather_data =
     (if truthy weather_data
      then (case and_then (py_get weather_data (ustr ''main'') (JObj [])) (\<lambda>m.
                 and_then (py_get m (ustr ''temp'') JNull) (\<lambda>temp.
                 and_then (py_get weather_data (ustr ''weather'') (JArr [JObj []])) (\<lambda>ws.
                 and_then (py_index0 ws) (\<lambda>w0.
                 and_then (py_get w0 (ustr ''description'') JNull) (\<lambda>weather_desc.
                   Inr (temp, weather_desc)))))) of
              Inl e \<Rightarrow> ([StSubheader WeatherInformation], Inl e)
            | Inr (temp, weather_desc) \<Rightarrow>
                ([StSubheader WeatherInformation,
                  StWrite [Lit ''Current temperature: '', Val temp, Str [172, 8734, 67]],
                  StWrite [Lit ''Weather conditions: '', Val weather_desc]], Inr ()))
      else ([], Inr ()))"

text \<open>The lines written for one hotel, and the block \<^verbatim>\<open>if hotels: ... else: ...\<close>.\<close>

definition render_hotel :: "hotel \<Rightarrow> event list" where
  "render_hotel h =
     [StWrite [Lit ''- '', Val (hotel_name h)],
      StWrite [Lit ''  Address: '', Val (addr_street (hotel_address h)), Lit '', '',
               Val (addr_city (hotel_address h)), Lit '', '',
               Val (addr_country (hotel_address h))]]
     @ (if hotel_stars h \<noteq> JStr (ustr ''N/A'')
        then [StWrite [Lit ''  Rating: '', Val (hotel_stars h), Lit '' stars'']] else [])
     @ (if hotel_phone h \<noteq> JStr (ustr ''Phone not available'')
        then [StWrite [Lit ''  Phone: '', Val (hotel_phone h)]] else [])
     @ (if hotel_website h \<noteq> JStr (ustr ''Website not available'')
        then [StWrite [Lit ''  Website: '', Val (hotel_website h)]] else [])
     @ [StWrite [Lit ''  [View on Map](https://www.openstreetmap.org/?mlat='',
                 Val (coord_lat (hotel_coordinates h)), Lit ''&mlon='',
                 Val (coord_lon (hotel_coordinates h)), Lit ''#map=16/'',
                 Val (coord_lat (hotel_coordinates h)), Lit ''/'',
                 Val (coord_lon (hotel_coordinates h)), Lit '')''],
        StWrite [Lit ''---'']]"

definition hotel_section :: "hotel list \<Rightarrow> event list" where
  "hotel_section hotels =
     (if hotels \<noteq> [] then concat (map render_hotel hotels)
      else [StWarning
        ''Could not fetch hotel data. Please check hotel booking websites directly.''])"

definition render_flight :: "flight \<Rightarrow> event list" where
  "render_flight f =
     [StWrite [Lit ''- '', Val (airline f), Lit '' - Flight '', Val (flight_number f)],
      StWrite [Lit ''  Departure: '', Val (departure f)],
      StWrite [Lit ''  Arrival: '', Val (arrival f)]]"

definition flight_section :: "flight list \<Rightarrow> event list" where
  "flight_section flights =
     (if flights \<noteq> [] then concat (map render_flight flights)
      else [StWarning
        ''Could not fetch real-time flight data. Please check airline websites directly.''])"

text \<open>
  The body of \<^verbatim>\<open>if st.button("Plan My Trip"):\<close> in \<^verbatim>\<open>main\<close>, for the four inputs of
  the form. The result is the events in order and how the run ended: \<open>Inl\<close> is the
  exception that left \<^verbatim>\<open>main\<close>.
\<close>

definition main ::
  "world \<Rightarrow> pystr \<Rightarrow> int \<Rightarrow> pystr \<Rightarrow> pystr \<Rightarrow> event list \<times> (py_exn + unit)" where
  "main w city days month origin_city =
     (case get_weather_data w city of (log1, weather_data) \<Rightarrow>
      (case weather_section weather_data of
         (log2, Inl e) \<Rightarrow> (log1 @ log2, Inl e)
       | (log2, Inr u) \<Rightarrow>
      (case generate_trip_plan w city days month of
         (log3, Inl e) \<Rightarrow> (log1 @ log2 @ log3, Inl e)
       | (log3, Inr trip_plan) \<Rightarrow>
      (case search_hotels w city of (log4, hotels) \<Rightarrow>
      (case search_flights w (get_airport_code origin_city) (get_airport_code city) of
         (log5, flights) \<Rightarrow>
           (log1 @ log2 @ log3
              @ [StSubheader YourTripPlan, StWrite [Str trip_plan]]
              @ [StSubheader HotelOptions] @ log4 @ hotel_section hotels
              @ [StSubheader FlightOptions] @ log5 @ flight_section flights,
            Inr ()))))))"

section \<open>Notions the properties are stated with\<close>

text \<open>
  A point-type element is one whose \<^verbatim>\<open>type\<close> is the string \<^verbatim>\<open>node\<close>: the test of
  the loop body.
\<close>

definition is_node :: "json \<Rightarrow> bool" where
  "is_node element = (py_get element (ustr ''type'') JNull = Inr (JStr (ustr ''node'')))"

text \<open>The element list of a spatial-query response, when it has one.\<close>

definition response_elements :: "json \<Rightarrow> json list" where
  "response_elements data =
     (case data of
        JObj kv \<Rightarrow> (case dict_get kv (ustr ''elements'') (JArr []) of JArr es \<Rightarrow> es | _ \<Rightarrow> [])
      | _ \<Rightarrow> [])"

text \<open>
  The candidates in the words of the specification, the first five point-type results,
  and the candidates of the loop, the point-type elements among the first five results.
\<close>

definition spec_candidates :: "json list \<Rightarrow> json list" where
  "spec_candidates es = take 5 (filter is_node es)"

definition loop_candidates :: "json list \<Rightarrow> json list" where
  "loop_candidates es = filter is_node (take 5 es)"

text \<open>The data list of a flights response, when it has one.\<close>

definition response_entries :: "json \<Rightarrow> json list" where
  "response_entries data =
     (case data of
        JObj kv \<Rightarrow> (case dict_get kv (ustr ''data'') (JArr []) of JArr es \<Rightarrow> es | _ \<Rightarrow> [])
      | _ \<Rightarrow> [])"

text \<open>A field of a flight entry is absent when its sub-object or the key in it is.\<close>

definition absent :: "(pystr \<times> json) list \<Rightarrow> pystr \<Rightarrow> pystr \<Rightarrow> bool" where
  "absent entry k1 k2 =
     (case map_of entry k1 of
        None \<Rightarrow> True
      | Some (JObj sub) \<Rightarrow> map_of sub k2 = None
      | Some _ \<Rightarrow> False)"

text \<open>
  An element the loop body reads without raising: a dict, whose tags, when it is a
  point-type element with tags, are a dict. The tags of other elements are not read.
\<close>

definition readable :: "json \<Rightarrow> bool" where
  "readable element =
     (case element of
        JObj el \<Rightarrow>
          (if dict_get el (ustr ''type'') JNull = JStr (ustr ''node'')
           then (case dict_get el (ustr ''tags'') (JObj []) of JObj tags \<Rightarrow> True | _ \<Rightarrow> False)
           else True)
      | _ \<Rightarrow> False)"

text \<open>
  Events that only the hotel and flight steps of \<^verbatim>\<open>main\<close> produce: their headings,
  their requests, their error notices and the two warnings.
\<close>

fun hotel_or_flight_event :: "event \<Rightarrow> bool" where
  "hotel_or_flight_event (StSubheader h) = (h = HotelOptions \<or> h = FlightOptions)"
| "hotel_or_flight_event (StWarning s) = True"
| "hotel_or_flight_event (Request (WeatherReq c)) = False"
| "hotel_or_flight_event (Request r) = True"
| "hotel_or_flight_event (StError s e) = (s \<noteq> ''Error fetching weather data: '')"
| "hotel_or_flight_event _ = False"

text \<open>A notice shown to the user.\<close>

fun is_notice :: "event \<Rightarrow> bool" where
  "is_notice (StWarning s) = True"
| "is_notice (StError s e) = True"
| "is_notice _ = False"

fun is_overpass_request :: "event \<Rightarrow> bool" where
  "is_overpass_request (Request (OverpassReq r a b)) = True"
| "is_overpass_request _ = False"

section \<open>Example responses\<close>

definition node_a :: json where
  "node_a = JObj [(ustr ''type'', JStr (ustr ''node'')),
                  (ustr ''lat'', JFloat 0x4041D70A3D70A3D7),
                  (ustr ''lon'', JFloat 0x406178A3D70A3D71),
                  (ustr ''tags'', JObj [(ustr ''name'', JStr (ustr ''Hotel A'')),
                                        (ustr ''stars'', JStr (ustr ''4''))])]"

definition node_b :: json where
  "node_b = JObj [(ustr ''type'', JStr (ustr ''node''))]"

definition node_c :: json where
  "node_c = JObj [(ustr ''type'', JStr (ustr ''node'')),
                  (ustr ''tags'', JObj [(ustr ''name'', JStr (ustr ''Hotel C''))])]"

definition node_d :: json where
  "node_d = JObj [(ustr ''type'', JStr (ustr ''node'')),
                  (ustr ''tags'', JObj [(ustr ''name'', JStr (ustr ''Hotel D''))])]"

definition way_w :: json where
  "way_w = JObj [(ustr ''type'', JStr (ustr ''way'')),
                 (ustr ''tags'', JObj [(ustr ''name'', JStr (ustr ''Hotel W''))])]"

text \<open>Four point-type elements and a way among them; five ways before a point.\<close>

definition many_nodes :: json where
  "many_nodes = JObj [(ustr ''elements'', JArr [node_a, way_w, node_b, node_c, node_d])]"

definition ways_first :: json where
  "ways_first = JObj [(ustr ''elements'', JArr [way_w, way_w, way_w, way_w, way_w, node_a])]"

text \<open>Three point-type elements followed by an element that is not an object.\<close>

definition three_then_junk :: json where
  "three_then_junk = JObj [(ustr ''elements'', JArr [node_a, node_b, node_c, JInt 7])]"

definition flight_full :: json where
  "flight_full = JObj [(ustr ''airline'', JObj [(ustr ''name'', JStr (ustr ''ANA''))]),
                       (ustr ''flight'', JObj [(ustr ''number'', JStr (ustr ''212''))]),
                       (ustr ''departure'', JObj [(ustr ''scheduled'', JStr (ustr ''T1''))]),
                       (ustr ''arrival'', JObj [(ustr ''scheduled'', JStr (ustr ''T2''))])]"

text \<open>An entry with an empty airline object, a flight number and nothing else.\<close>

definition partial_entry :: "(pystr \<times> json) list" where
  "partial_entry = [(ustr ''airline'', JObj []),
                    (ustr ''flight'', JObj [(ustr ''number'', JStr (ustr ''7''))])]"

definition flight_partial :: json where
  "flight_partial = JObj partial_entry"

definition four_flights :: json where
  "four_flights = JObj [(ustr ''data'', JArr [flight_full, JObj [], flight_partial, flight_full])]"

text \<open>
  A world where every service answers: the geocoder with the coordinates of Tokyo as
  strings, which the parser maps to their doubles.
\<close>

definition tokyo_world :: world where
  "tokyo_world =
     \<lparr>respond = (\<lambda>rq. case rq of
          WeatherReq c \<Rightarrow> Reply 200 (Some (JObj [(ustr ''main'', JObj [(ustr ''temp'', JInt 18)])]))
        | GeocodeReq c \<Rightarrow> Reply 200 (Some (JArr [JObj [(ustr ''lat'', JStr (ustr ''35.6762'')),
                                                  (ustr ''lon'', JStr (ustr ''139.6503''))]]))
        | OverpassReq r a b \<Rightarrow> Reply 200 (Some many_nodes)
        | FlightsReq a b \<Rightarrow> Reply 200 (Some four_flights)),
      llm_invoke = (\<lambda>c d m. Inr (ustr ''A plan'')),
      str_to_float = map_of [(ustr ''35.6762'', 0x4041D68DB8BAC711),
                             (ustr ''139.6503'', 0x406174CF41F212D7)],
      int_to_float = map_of [(0, 0)]\<rparr>"

text \<open>The same world with another answer of the language model.\<close>

definition tokyo_world' :: world where
  "tokyo_world' = tokyo_world\<lparr>llm_invoke := (\<lambda>c d m. Inr (ustr ''Another plan''))\<rparr>"

text \<open>A world where no service answers, and one where every answer is empty.\<close>

definition down_world :: world where
  "down_world =
     \<lparr>respond = (\<lambda>rq. NoReply),
      llm_invoke = (\<lambda>c d m. Inl ServiceError),
      str_to_float = (\<lambda>s. None),
      int_to_float = (\<lambda>i. None)\<rparr>"

definition empty_world :: world where
  "empty_world =
     \<lparr>respond = (\<lambda>rq. case rq of
          WeatherReq c \<Rightarrow> Reply 200 (Some (JObj []))
        | GeocodeReq c \<Rightarrow> Reply 200 (Some (JArr []))
        | OverpassReq r a b \<Rightarrow> Reply 200 (Some (JObj []))
        | FlightsReq a b \<Rightarrow> Reply 200 (Some (JObj []))),
      llm_invoke = (\<lambda>c d m. Inr (ustr ''A plan'')),
      str_to_float = (\<lambda>s. None),
      int_to_float = (\<lambda>i. None)\<rparr>"

text \<open>A world whose flights service answers with an entry that is not an object.\<close>

definition bad_flights_world :: world where
  "bad_flights_world =
     tokyo_world\<lparr>respond := (\<lambda>rq. case rq of
          FlightsReq a b \<Rightarrow> Reply 200 (Some (JObj [(ustr ''data'', JArr [JNull])]))
        | _ \<Rightarrow> respond tokyo_world rq)\<rparr>"

text \<open>A world whose services all answer with the status 503 and a JSON body.\<close>

definition unavailable_world :: world where
  "unavailable_world = tokyo_world\<lparr>respond := (\<lambda>rq. Reply 503 (Some four_flights))\<rparr>"

text \<open>
  A world whose flights service answers with the status 300 and a JSON body, as a server
  may for a redirection the client does not follow.
\<close>

definition redirect_world :: world where
  "redirect_world =
     tokyo_world\<lparr>respond := (\<lambda>rq. case rq of
          FlightsReq a b \<Rightarrow> Reply 300 (Some four_flights)
        | _ \<Rightarrow> respond tokyo_world rq)\<rparr>"

section \<open>Properties of the Hotel Finder\<close>

lemma and_then_Inl [simp]: "and_then (Inl e) f = Inl e"
  by (simp add: and_then_def)

lemma and_then_Inr [simp]: "and_then (Inr x) f = f x"
  by (simp add: and_then_def)

lemma and_then_eq_Inr:
  "and_then r f = Inr y \<longleftrightarrow> (\<exists>x. r = Inr x \<and> f x = Inr y)"
  by (cases r) simp_all

lemma is_node_iff: "is_node e \<longleftrightarrow> py_get e (ustr ''type'') JNull = Inr (JStr (ustr ''node''))"
  by (simp add: is_node_def)

lemma hotel_loop_map:
  "hotel_loop city es hs0 = Inr hs \<Longrightarrow> length hs0 < 3 \<Longrightarrow>
   map Inr hs = map Inr hs0 @ map (build_hotel city) (take (3 - length hs0) (filter is_node es))"
proof (induction es arbitrary: hs0)
  case Nil
  then show ?case by simp
next
  case (Cons e es)
  from Cons.prems(1) obtain t where t: "py_get e (ustr ''type'') JNull = Inr t"
    by (auto simp: and_then_eq_Inr)
  show ?case
  proof (cases "t = JStr (ustr ''node'')")
    case False
    with t have "\<not> is_node e" by (simp add: is_node_iff)
    moreover from Cons.prems(1) t False have "hotel_loop city es hs0 = Inr hs" by simp
    ultimately show ?thesis using Cons.IH [OF _ Cons.prems(2)] by simp
  next
    case True
    with t have node: "is_node e" by (simp add: is_node_iff)
    from Cons.prems(1) t True obtain h where h: "build_hotel city e = Inr h"
      and rest: "(if length (hs0 @ [h]) \<ge> 3 then Inr (hs0 @ [h])
                  else hotel_loop city es (hs0 @ [h])) = Inr hs"
      by (auto simp: and_then_eq_Inr)
    show ?thesis
    proof (cases "length (hs0 @ [h]) \<ge> 3")
      case True
      with rest have "hs = hs0 @ [h]" by simp
      moreover from True Cons.prems(2) have "3 - length hs0 = 1" by simp
      ultimately show ?thesis using node h by simp
    next
      case False
      with rest have "hotel_loop city es (hs0 @ [h]) = Inr hs" by simp
      moreover from False have "length (hs0 @ [h]) < 3" by simp
      ultimately have "map Inr hs = map Inr (hs0 @ [h]) @
          map (build_hotel city) (take (3 - length (hs0 @ [h])) (filter is_node es))"
        by (rule Cons.IH)
      moreover from False have "3 - length hs0 = Suc (3 - length (hs0 @ [h]))" by simp
      ultimately show ?thesis using node h by simp
    qed
  qed
qed

lemma hotel_loop_strings:
  "hotel_loop city (map (\<lambda>c. JStr [c]) s) [] = Inr hs \<Longrightarrow> s = [] \<and> hs = []"
  by (cases s) auto

lemma hotels_of_response_map:
  assumes "hotels_of_response city data = Inr hs"
  shows "map Inr hs = map (build_hotel city) (take 3 (loop_candidates (response_elements data)))"
proof -
  from assms obtain els items where els: "py_get data (ustr ''elements'') (JArr []) = Inr els"
    and items: "py_slice_items 5 els = Inr items"
    and loop: "hotel_loop city items [] = Inr hs"
    by (auto simp: hotels_of_response_def and_then_eq_Inr)
  from els obtain kv where kv: "data = JObj kv" "els = dict_get kv (ustr ''elements'') (JArr [])"
    by (cases data) auto
  show ?thesis
  proof (cases els)
    case (JArr es)
    with items have "items = take 5 es" by auto
    with loop have "map Inr hs = map (build_hotel city) (take 3 (filter is_node (take 5 es)))"
      using hotel_loop_map [of city "take 5 es" "[]" hs] by simp
    moreover from kv JArr have "dict_get kv (ustr ''elements'') (JArr []) = JArr es"
      by simp
    then have "response_elements data = es"
      using kv(1) by (simp add: response_elements_def)
    ultimately show ?thesis by (simp add: loop_candidates_def)
  next
    case (JStr s)
    with items have "items = map (\<lambda>c. JStr [c]) (take 5 s)" by auto
    with loop have "hs = []" using hotel_loop_strings by blast
    moreover from kv JStr have "dict_get kv (ustr ''elements'') (JArr []) = JStr s"
      by simp
    then have "response_elements data = []"
      using kv(1) by (simp add: response_elements_def)
    ultimately show ?thesis by (simp add: loop_candidates_def)
  qed (use items in auto)
qed

lemma search_hotels_cases:
  "snd (search_hotels w city) = [] \<or>
   (\<exists>lt ln data. snd (get_city_coordinates w city) = (Some lt, Some ln) \<and>
      fetch_json (respond w (OverpassReq 5000 lt ln)) = Inr data \<and>
      hotels_of_response city data = Inr (snd (search_hotels w city)))"
  by (auto simp: search_hotels_def and_then_eq_Inr split: prod.splits option.splits sum.splits)

text \<open>
  C1. Whatever the services answer, \<open>search_hotels\<close> returns at most three hotel
  records, and every record it returns was built from an element of the spatial-query
  response whose type is \<^verbatim>\<open>node\<close>: an element of any other type contributes no
  record. This holds also when the response has more than three point-type elements.
\<close>

theorem search_hotels_at_most_three_nodes_only:
  "length (snd (search_hotels w city)) \<le> 3 \<and>
   (\<forall>h \<in> set (snd (search_hotels w city)).
      \<exists>lt ln data element.
        snd (get_city_coordinates w city) = (Some lt, Some ln) \<and>
        fetch_json (respond w (OverpassReq 5000 lt ln)) = Inr data \<and>
        element \<in> set (response_elements data) \<and> is_node element \<and>
        build_hotel city element = Inr h)"
proof (cases "snd (search_hotels w city) = []")
  case True
  then show ?thesis by simp
next
  case False
  then obtain lt ln data where c: "snd (get_city_coordinates w city) = (Some lt, Some ln)"
    and f: "fetch_json (respond w (OverpassReq 5000 lt ln)) = Inr data"
    and r: "hotels_of_response city data = Inr (snd (search_hotels w city))"
    using search_hotels_cases [of w city] by blast
  let ?hs = "snd (search_hotels w city)"
  let ?cs = "take 3 (loop_candidates (response_elements data))"
  have m: "map Inr ?hs = map (build_hotel city) ?cs"
    using r by (rule hotels_of_response_map)
  then have "length ?hs = length ?cs" by (metis length_map)
  then have len: "length ?hs \<le> 3" by simp
  have "\<exists>element. element \<in> set (response_elements data) \<and> is_node element \<and>
          build_hotel city element = Inr h" if "h \<in> set ?hs" for h
  proof -
    from that have "Inr h \<in> set (map (build_hotel city) ?cs)"
      unfolding m [symmetric] by simp
    then obtain e where e: "e \<in> set ?cs" "build_hotel city e = Inr h" by auto
    from e(1) have "e \<in> set (loop_candidates (response_elements data))"
      by (rule in_set_takeD)
    then have "e \<in> set (response_elements data) \<and> is_node e"
      by (auto simp: loop_candidates_def dest: in_set_takeD)
    with e(2) show ?thesis by blast
  qed
  with c f len show ?thesis by blast
qed

theorem search_hotels_at_most_three_nodes_only_witness:
  "length (filter is_node (response_elements many_nodes)) = 4 \<and>
   length (snd (search_hotels tokyo_world (ustr ''Tokyo''))) = 3 \<and>
   length (snd (search_hotels tokyo_world (ustr ''Tokyo''))) \<le> 3 \<and>
   (\<exists>h lt ln data element.
      h \<in> set (snd (search_hotels tokyo_world (ustr ''Tokyo''))) \<and>
      snd (get_city_coordinates tokyo_world (ustr ''Tokyo'')) = (Some lt, Some ln) \<and>
      fetch_json (respond tokyo_world (OverpassReq 5000 lt ln)) = Inr data \<and>
      element \<in> set (response_elements data) \<and> is_node element \<and>
      build_hotel (ustr ''Tokyo'') element = Inr h)"
proof -
  have "length (filter is_node (response_elements many_nodes)) = 4"
    by code_simp
  moreover have three: "length (snd (search_hotels tokyo_world (ustr ''Tokyo''))) = 3"
    by code_simp
  moreover from three obtain h where "h \<in> set (snd (search_hotels tokyo_world (ustr ''Tokyo'')))"
    by (cases "snd (search_hotels tokyo_world (ustr ''Tokyo''))") auto
  ultimately show ?thesis
    using search_hotels_at_most_three_nodes_only [of tokyo_world "ustr ''Tokyo''"]
    by blast
qed

lemma is_node_JObj:
  "is_node (JObj el) \<longleftrightarrow> dict_get el (ustr ''type'') JNull = JStr (ustr ''node'')"
  by (simp add: is_node_def)

lemma readable_cases:
  assumes "readable e"
  obtains el where "e = JObj el" "\<not> is_node e"
  | el tags where "e = JObj el" "is_node e" "build_hotel city e = Inr (hotel_record city el tags)"
proof -
  from assms obtain el where e: "e = JObj el"
    by (cases e) (simp_all add: readable_def)
  show thesis
  proof (cases "is_node e")
    case False
    with e show thesis by (rule that(1))
  next
    case True
    with e assms obtain tags where "dict_get el (ustr ''tags'') (JObj []) = JObj tags"
      by (auto simp: readable_def is_node_JObj split: json.splits)
    with e have "build_hotel city e = Inr (hotel_record city el tags)" by simp
    with e True show thesis by (rule that(2))
  qed
qed

lemma hotel_loop_skip:
  "e = JObj el \<Longrightarrow> \<not> is_node e \<Longrightarrow> hotel_loop city (e # es) hs0 = hotel_loop city es hs0"
  by (simp add: is_node_JObj)

lemma hotel_loop_build:
  "e = JObj el \<Longrightarrow> is_node e \<Longrightarrow> build_hotel city e = Inr h \<Longrightarrow>
   hotel_loop city (e # es) hs0 =
     (if 3 \<le> length (hs0 @ [h]) then Inr (hs0 @ [h]) else hotel_loop city es (hs0 @ [h]))"
  by (simp add: is_node_JObj del: build_hotel.simps)

lemma hotel_loop_prefix:
  "list_all readable pre \<Longrightarrow> length hs0 < 3 \<Longrightarrow>
   3 \<le> length hs0 + length (filter is_node pre) \<Longrightarrow>
   \<exists>hs. hotel_loop city (pre @ rest) hs0 = Inr hs"
proof (induction pre arbitrary: hs0)
  case Nil
  then show ?case by simp
next
  case (Cons e pre)
  from Cons.prems(1) have e: "readable e" and pre: "list_all readable pre" by simp_all
  from e show ?case
  proof (cases rule: readable_cases [where city = city])
    case (1 el)
    have eq: "hotel_loop city ((e # pre) @ rest) hs0 = hotel_loop city (pre @ rest) hs0"
      unfolding append_Cons by (rule hotel_loop_skip [OF 1])
    from 1(2) Cons.prems(3) have "3 \<le> length hs0 + length (filter is_node pre)" by simp
    then have "\<exists>hs. hotel_loop city (pre @ rest) hs0 = Inr hs"
      by (rule Cons.IH [OF pre Cons.prems(2)])
    then show ?thesis unfolding eq .
  next
    case (2 el tags)
    let ?h = "hotel_record city el tags"
    have eq: "hotel_loop city ((e # pre) @ rest) hs0 =
        (if 3 \<le> length (hs0 @ [?h]) then Inr (hs0 @ [?h])
         else hotel_loop city (pre @ rest) (hs0 @ [?h]))"
      unfolding append_Cons by (rule hotel_loop_build [OF 2])
    show ?thesis
    proof (cases "3 \<le> length (hs0 @ [?h])")
      case True
      then show ?thesis unfolding eq by simp
    next
      case False
      then have "length (hs0 @ [?h]) < 3" by simp
      moreover from 2(2) Cons.prems(3)
      have "3 \<le> length (hs0 @ [?h]) + length (filter is_node pre)" by simp
      ultimately have "\<exists>hs. hotel_loop city (pre @ rest) (hs0 @ [?h]) = Inr hs"
        by (rule Cons.IH [OF pre])
      with False show ?thesis unfolding eq by simp
    qed
  qed
qed

lemma hotel_loop_total:
  "list_all readable es \<Longrightarrow> \<exists>hs. hotel_loop city es hs0 = Inr hs"
proof (induction es arbitrary: hs0)
  case Nil
  then show ?case by simp
next
  case (Cons e es)
  from Cons.prems have e: "readable e" and es: "list_all readable es" by simp_all
  from e show ?case
  proof (cases rule: readable_cases [where city = city])
    case (1 el)
    show ?thesis
      unfolding hotel_loop_skip [OF 1] by (rule Cons.IH [OF es])
  next
    case (2 el tags)
    show ?thesis
      unfolding hotel_loop_build [OF 2] using Cons.IH [OF es] by simp
  qed
qed

text \<open>
  C2, as stated: the records are built from the first five point-type results of the
  response. For five ways followed by a point, the point is among the first five
  point-type results, and no record is built from it.
\<close>

theorem candidates_counterexample:
  "spec_candidates (response_elements ways_first) = [node_a] \<and>
   loop_candidates (response_elements ways_first) = [] \<and>
   hotels_of_response (ustr ''Tokyo'') ways_first = Inr [] \<and>
   map (build_hotel (ustr ''Tokyo'')) (take 3 (spec_candidates (response_elements ways_first)))
     \<noteq> map Inr []"
  by code_simp

text \<open>
  C2, amended. The candidates are the point-type elements among the first five elements
  of the response, whatever the type of these five: when the loop ends without raising,
  the records are those of the first three candidates, in order. The loop stops at the
  third record: when a part of the first five elements is readable and holds three
  point-type elements, the result is their three records whatever comes after that part,
  readable or not. With fewer point-type elements the loop reads all five and ends
  without raising when they are readable. A point-type element after the fifth element
  is never a candidate.
\<close>

theorem hotels_from_first_five_elements:
  "(hotels_of_response city data = Inr hs \<longrightarrow>
      map Inr hs = map (build_hotel city) (take 3 (filter is_node (take 5 (response_elements data))))) \<and>
   (data = JObj kv \<and> dict_get kv (ustr ''elements'') (JArr []) = JArr es \<and>
    take 5 es = pre @ rest \<and> list_all readable pre \<and> 3 \<le> length (filter is_node pre) \<longrightarrow>
      (\<exists>hs'. hotels_of_response city data = Inr hs' \<and> length hs' = 3 \<and>
         map Inr hs' = map (build_hotel city) (take 3 (filter is_node pre)))) \<and>
   (data = JObj kv \<and> dict_get kv (ustr ''elements'') (JArr []) = JArr es \<and>
    list_all readable (take 5 es) \<longrightarrow>
      (\<exists>hs'. hotels_of_response city data = Inr hs'))"
proof (intro conjI impI)
  assume "hotels_of_response city data = Inr hs"
  then show "map Inr hs =
      map (build_hotel city) (take 3 (filter is_node (take 5 (response_elements data))))"
    using hotels_of_response_map [of city data hs] by (simp add: loop_candidates_def)
next
  assume a: "data = JObj kv \<and> dict_get kv (ustr ''elements'') (JArr []) = JArr es \<and>
    take 5 es = pre @ rest \<and> list_all readable pre \<and> 3 \<le> length (filter is_node pre)"
  then obtain hs' where "hotel_loop city (pre @ rest) [] = Inr hs'"
    using hotel_loop_prefix [of pre "[]" city rest] by auto
  with a have r: "hotels_of_response city data = Inr hs'"
    by (simp add: hotels_of_response_def)
  from a have "response_elements data = es"
    by (simp add: response_elements_def)
  with r a have m: "map Inr hs' = map (build_hotel city) (take 3 (filter is_node pre))"
    using hotels_of_response_map [of city data hs'] by (simp add: loop_candidates_def)
  then have "length hs' = length (take 3 (filter is_node pre))"
    by (metis length_map)
  with a have "length hs' = 3" by simp
  with r m show "\<exists>hs'. hotels_of_response city data = Inr hs' \<and> length hs' = 3 \<and>
         map Inr hs' = map (build_hotel city) (take 3 (filter is_node pre))"
    by blast
next
  assume a: "data = JObj kv \<and> dict_get kv (ustr ''elements'') (JArr []) = JArr es \<and>
    list_all readable (take 5 es)"
  then obtain hs' where "hotel_loop city (take 5 es) [] = Inr hs'"
    using hotel_loop_total by blast
  with a show "\<exists>hs'. hotels_of_response city data = Inr hs'"
    by (simp add: hotels_of_response_def)
qed

theorem hotels_from_first_five_elements_witness:
  "three_then_junk = JObj [(ustr ''elements'', JArr [node_a, node_b, node_c, JInt 7])] \<and>
   take 5 [node_a, node_b, node_c, JInt 7] = [node_a, node_b, node_c] @ [JInt 7] \<and>
   list_all readable [node_a, node_b, node_c] \<and> \<not> readable (JInt 7) \<and>
   3 \<le> length (filter is_node [node_a, node_b, node_c]) \<and>
   (\<exists>hs. hotels_of_response (ustr ''Tokyo'') three_then_junk = Inr hs \<and> length hs = 3 \<and>
      map Inr hs = map (build_hotel (ustr ''Tokyo''))
        (take 3 (filter is_node [node_a, node_b, node_c]))) \<and>
   list_all readable (take 5 [node_a, way_w, node_b, node_c, node_d]) \<and>
   (\<exists>hs. hotels_of_response (ustr ''Tokyo'') many_nodes = Inr hs)"
proof -
  have d: "three_then_junk = JObj [(ustr ''elements'', JArr [node_a, node_b, node_c, JInt 7])]"
    "dict_get [(ustr ''elements'', JArr [node_a, node_b, node_c, JInt 7])] (ustr ''elements'')
       (JArr []) = JArr [node_a, node_b, node_c, JInt 7]"
    "take 5 [node_a, node_b, node_c, JInt 7] = [node_a, node_b, node_c] @ [JInt 7]"
    by (simp_all add: three_then_junk_def dict_get_def)
  have r: "list_all readable [node_a, node_b, node_c]" "\<not> readable (JInt 7)"
    "3 \<le> length (filter is_node [node_a, node_b, node_c])"
    by code_simp+
  have d': "many_nodes = JObj [(ustr ''elements'', JArr [node_a, way_w, node_b, node_c, node_d])]"
    "dict_get [(ustr ''elements'', JArr [node_a, way_w, node_b, node_c, node_d])] (ustr ''elements'')
       (JArr []) = JArr [node_a, way_w, node_b, node_c, node_d]"
    by (simp_all add: many_nodes_def dict_get_def)
  have r': "list_all readable (take 5 [node_a, way_w, node_b, node_c, node_d])"
    by code_simp
  from d r d' r' show ?thesis
    using hotels_from_first_five_elements
      [of "ustr ''Tokyo''" three_then_junk _
          "[(ustr ''elements'', JArr [node_a, node_b, node_c, JInt 7])]"
          "[node_a, node_b, node_c, JInt 7]" "[node_a, node_b, node_c]" "[JInt 7]"]
      hotels_from_first_five_elements
      [of "ustr ''Tokyo''" many_nodes _
          "[(ustr ''elements'', JArr [node_a, way_w, node_b, node_c, node_d])]"
          "[node_a, way_w, node_b, node_c, node_d]"]
    by blast
qed

section \<open>Properties of the Airport Code Resolver\<close>

lemma case_map_single:
  "map_of special c = None \<Longrightarrow> length (case_map special ranges c) = 1"
  by (simp add: case_map_def split: option.splits prod.splits)

lemma case_map_length:
  assumes "list_all (\<lambda>(k, v). length v \<le> n) special" and "1 \<le> n"
  shows "length (case_map special ranges c) \<le> n"
proof (cases "map_of special c")
  case None
  then show ?thesis using assms(2) by (simp add: case_map_single)
next
  case (Some r)
  then have "(c, r) \<in> set special" by (rule map_of_SomeD)
  with assms(1) have "length r \<le> n" by (auto simp: list_all_iff)
  with Some show ?thesis by (simp add: case_map_def)
qed

lemma map_of_from:
  assumes "list_all (\<lambda>(k, v). n \<le> k) special" and "c < (n::nat)"
  shows "map_of special c = None"
proof (cases "map_of special c")
  case None
  then show ?thesis .
next
  case (Some r)
  then have "(c, r) \<in> set special" by (rule map_of_SomeD)
  with assms(1) have "n \<le> c" by (auto simp: list_all_iff)
  with assms(2) show ?thesis by simp
qed

lemma find_from:
  assumes "list_all (\<lambda>(lo, hi, step, lo'). n \<le> lo) ranges" and "c < (n::nat)"
  shows "find (\<lambda>(lo, hi, step, lo'). lo \<le> c \<and> c \<le> hi \<and> (c - lo) mod step = 0) ranges = None"
  using assms by (induction ranges) auto

text \<open>On ASCII the two mappings are the ASCII ones.\<close>

lemma py_lower_cp_ascii:
  assumes "c < 128"
  shows "py_lower_cp c = [if 65 \<le> c \<and> c \<le> 90 then c + 32 else c]"
proof -
  have s: "map_of lower_special c = None"
    by (rule map_of_from [where n = 128]) (simp_all add: lower_special_def assms)
  obtain rest where r: "lower_ranges = (65, 90, 1, 97) # rest"
    and l: "list_all (\<lambda>(lo, hi, step, lo'). 128 \<le> lo) rest"
    by (simp add: lower_ranges_def)
  have f: "find (\<lambda>(lo, hi, step, lo'). lo \<le> c \<and> c \<le> hi \<and> (c - lo) mod step = 0) rest = None"
    by (rule find_from [OF l assms])
  show ?thesis
    unfolding py_lower_cp_def case_map_def s r using f by auto
qed

lemma py_upper_cp_ascii:
  assumes "c < 128"
  shows "py_upper_cp c = [if 97 \<le> c \<and> c \<le> 122 then c - 32 else c]"
proof -
  have s: "map_of upper_special c = None"
    by (rule map_of_from [where n = 128]) (simp_all add: upper_special_def assms)
  obtain rest where r: "upper_ranges = (97, 122, 1, 65) # rest"
    and l: "list_all (\<lambda>(lo, hi, step, lo'). 128 \<le> lo) rest"
    by (simp add: upper_ranges_def)
  have f: "find (\<lambda>(lo, hi, step, lo'). lo \<le> c \<and> c \<le> hi \<and> (c - lo) mod step = 0) rest = None"
    by (rule find_from [OF l assms])
  show ?thesis
    unfolding py_upper_cp_def case_map_def s r using f by auto
qed

lemma lower_from_ascii:
  "\<forall>c \<in> set s. c < 128 \<Longrightarrow>
   lower_from seen s = map (\<lambda>c. if 65 \<le> c \<and> c \<le> 90 then c + 32 else c) s"
  by (induction s arbitrary: seen) (simp_all add: py_lower_cp_ascii)

lemma py_lower_ascii:
  "\<forall>c \<in> set s. c < 128 \<Longrightarrow>
   py_lower s = map (\<lambda>c. if 65 \<le> c \<and> c \<le> 90 then c + 32 else c) s"
  by (simp add: py_lower_def lower_from_ascii)

lemma py_upper_ascii:
  "\<forall>c \<in> set s. c < 128 \<Longrightarrow>
   py_upper s = map (\<lambda>c. if 97 \<le> c \<and> c \<le> 122 then c - 32 else c) s"
  by (induction s) (simp_all add: py_upper_def py_upper_cp_ascii)

lemma length_py_lower_cp: "length (py_lower_cp c) \<le> 2"
  unfolding py_lower_cp_def
  by (rule case_map_length) (simp_all add: lower_special_def)

lemma length_lower_from: "length (lower_from seen s) \<le> 2 * length s"
proof (induction s arbitrary: seen)
  case Nil
  then show ?case by simp
next
  case (Cons c s)
  from Cons.IH [of "c # seen"] length_py_lower_cp [of c] show ?case by auto
qed

lemma airport_codes_keys_long:
  "map_of airport_codes k = Some v \<Longrightarrow> 5 \<le> length k"
  by (auto simp: airport_codes_def ustr_def split: if_splits)

lemma short_name_unmapped:
  "length city < 3 \<Longrightarrow> map_of airport_codes (py_lower city) = None"
proof (cases "map_of airport_codes (py_lower city)")
  case None
  then show ?thesis .
next
  case (Some v)
  assume "length city < 3"
  moreover from Some have "5 \<le> length (py_lower city)"
    by (rule airport_codes_keys_long)
  moreover have "length (py_lower city) \<le> 2 * length city"
    by (simp add: py_lower_def length_lower_from)
  ultimately show ?thesis by simp
qed

lemma length_py_upper_single:
  "\<forall>c \<in> set s. length (py_upper_cp c) = 1 \<Longrightarrow> length (py_upper s) = length s"
  by (induction s) (simp_all add: py_upper_def)

lemma tokyo_code: "map_of airport_codes (ustr ''tokyo'') = Some (ustr ''HND'')"
  by (simp add: airport_codes_def)

lemma lower_Tokyo: "py_lower (ustr ''Tokyo'') = ustr ''tokyo''"
  by (simp add: py_lower_ascii ustr_def)

lemma lower_kelvin: "py_lower [84, 79, 8490, 89, 79] = ustr ''tokyo''"
  by (simp add: py_lower_def py_lower_cp_def case_map_def lower_special_def lower_ranges_def
      ustr_def)

text \<open>
  C3. The lookup is case-insensitive: every name that differs from \<^verbatim>\<open>Tokyo\<close> only in
  case, that is, with the same lower-case form, gives \<^verbatim>\<open>HND\<close>; every name whose
  lower-case form is not a key of the table gives its first three characters in upper
  case; and \<^verbatim>\<open>Lagos\<close> gives \<^verbatim>\<open>LAG\<close>. The function is a function of the name alone.
\<close>

theorem get_airport_code_lookup:
  "(py_lower city = py_lower (ustr ''Tokyo'') \<longrightarrow> get_airport_code city = ustr ''HND'') \<and>
   (map_of airport_codes (py_lower city) = None \<longrightarrow>
      get_airport_code city = py_upper (take 3 city)) \<and>
   get_airport_code (ustr ''Lagos'') = ustr ''LAG''"
proof (intro conjI impI)
  assume "py_lower city = py_lower (ustr ''Tokyo'')"
  then show "get_airport_code city = ustr ''HND''"
    by (simp add: get_airport_code_def lower_Tokyo tokyo_code)
next
  assume "map_of airport_codes (py_lower city) = None"
  then show "get_airport_code city = py_upper (take 3 city)"
    by (simp add: get_airport_code_def)
next
  have "py_lower (ustr ''Lagos'') = ustr ''lagos''"
    by (simp add: py_lower_ascii ustr_def)
  moreover have "map_of airport_codes (ustr ''lagos'') = None"
    by (simp add: airport_codes_def ustr_def)
  moreover have "py_upper (take 3 (ustr ''Lagos'')) = ustr ''LAG''"
    by (simp add: py_upper_ascii ustr_def)
  ultimately show "get_airport_code (ustr ''Lagos'') = ustr ''LAG''"
    by (simp add: get_airport_code_def)
qed

theorem get_airport_code_lookup_witness:
  "py_lower (ustr ''tOKyo'') = py_lower (ustr ''Tokyo'') \<and>
   get_airport_code (ustr ''tOKyo'') = ustr ''HND'' \<and>
   py_lower [84, 79, 8490, 89, 79] = py_lower (ustr ''Tokyo'') \<and>
   get_airport_code [84, 79, 8490, 89, 79] = ustr ''HND'' \<and>
   map_of airport_codes (py_lower (ustr ''Lagos'')) = None \<and>
   get_airport_code (ustr ''Lagos'') = py_upper (take 3 (ustr ''Lagos'')) \<and>
   py_upper (take 3 (ustr ''Lagos'')) = ustr ''LAG'' \<and>
   map_of airport_codes (py_lower [321, 243, 100, 378]) = None \<and>
   get_airport_code [321, 243, 100, 378] = py_upper (take 3 [321, 243, 100, 378]) \<and>
   py_upper (take 3 [321, 243, 100, 378]) = [321, 211, 68]"
proof -
  have a: "py_lower (ustr ''tOKyo'') = py_lower (ustr ''Tokyo'')"
    by (simp add: py_lower_ascii ustr_def)
  have b: "py_lower [84, 79, 8490, 89, 79] = py_lower (ustr ''Tokyo'')"
    by (simp add: lower_kelvin lower_Tokyo)
  have "py_lower (ustr ''Lagos'') = ustr ''lagos''"
    by (simp add: py_lower_ascii ustr_def)
  then have c: "map_of airport_codes (py_lower (ustr ''Lagos'')) = None"
    by (simp add: airport_codes_def ustr_def)
  have d: "py_upper (take 3 (ustr ''Lagos'')) = ustr ''LAG''"
    by (simp add: py_upper_ascii ustr_def)
  have "py_lower [321, 243, 100, 378] = [322, 243, 100, 378]"
    by (simp add: py_lower_def py_lower_cp_def case_map_def lower_special_def lower_ranges_def)
  then have e: "map_of airport_codes (py_lower [321, 243, 100, 378]) = None"
    by (simp add: airport_codes_def ustr_def)
  have f: "py_upper (take 3 [321, 243, 100, 378]) = [321, 211, 68]"
    by (simp add: py_upper_def py_upper_cp_def case_map_def upper_special_def upper_ranges_def)
  from a b c d e f show ?thesis
    using get_airport_code_lookup [of "ustr ''tOKyo''"]
      get_airport_code_lookup [of "[84, 79, 8490, 89, 79]"]
      get_airport_code_lookup [of "ustr ''Lagos''"]
      get_airport_code_lookup [of "[321, 243, 100, 378]"]
    by simp
qed

text \<open>
  C10, as stated: a name of fewer than three characters gives a code of fewer than three
  characters. The name of two sharp s (U+00DF) is not in the table, and its upper-case
  form has four characters.
\<close>

theorem short_name_counterexample:
  "[223, 223] \<noteq> [] \<and> length [223, 223 :: nat] < 3 \<and>
   map_of airport_codes (py_lower [223, 223]) = None \<and>
   get_airport_code [223, 223] = ustr ''SSSS'' \<and>
   \<not> length (get_airport_code [223, 223]) < 3"
proof -
  have a: "map_of airport_codes (py_lower [223, 223]) = None"
    by (rule short_name_unmapped) simp
  have "py_upper [223, 223] = ustr ''SSSS''"
    by (simp add: py_upper_def py_upper_cp_def case_map_def upper_special_def ustr_def)
  with a have b: "get_airport_code [223, 223] = ustr ''SSSS''"
    by (simp add: get_airport_code_def)
  from a b show ?thesis by (simp add: ustr_def)
qed

text \<open>
  C10, amended. A name of fewer than three characters is never in the table, and the
  result is the whole name in upper case; the empty name gives the empty string. The
  result is as long as the name, hence shorter than three characters, when no character
  of the name has an upper-case form of several characters; this is so for every ASCII
  name. No step of the function raises.
\<close>

theorem get_airport_code_short:
  "(length city < 3 \<longrightarrow> get_airport_code city = py_upper city) \<and>
   get_airport_code [] = [] \<and>
   (length city < 3 \<and> (\<forall>c \<in> set city. length (py_upper_cp c) = 1) \<longrightarrow>
      length (get_airport_code city) = length city) \<and>
   (\<forall>c < 128. length (py_upper_cp c) = 1)"
proof (intro conjI impI)
  assume "length city < 3"
  then show "get_airport_code city = py_upper city"
    by (simp add: get_airport_code_def short_name_unmapped)
next
  show "get_airport_code [] = []"
    by (simp add: get_airport_code_def py_upper_def short_name_unmapped)
next
  assume "length city < 3 \<and> (\<forall>c \<in> set city. length (py_upper_cp c) = 1)"
  then show "length (get_airport_code city) = length city"
    by (simp add: get_airport_code_def short_name_unmapped length_py_upper_single)
next
  show "\<forall>c < 128. length (py_upper_cp c) = 1"
    by (simp add: py_upper_cp_ascii)
qed

theorem get_airport_code_short_witness:
  "length (ustr ''LA'') < 3 \<and> get_airport_code (ustr ''LA'') = py_upper (ustr ''LA'') \<and>
   py_upper (ustr ''LA'') = ustr ''LA'' \<and>
   length (ustr ''la'') < 3 \<and> list_all (\<lambda>c. length (py_upper_cp c) = 1) (ustr ''la'') \<and>
   length (get_airport_code (ustr ''la'')) = 2 \<and> get_airport_code (ustr ''la'') = ustr ''LA''"
proof -
  have a: "length (ustr ''LA'') < 3" "length (ustr ''la'') < 3" "length (ustr ''la'') = 2"
    "length (ustr ''LA'') = 2"
    by (simp_all add: ustr_def)
  have b: "list_all (\<lambda>c. length (py_upper_cp c) = 1) (ustr ''la'')"
    by (simp add: py_upper_cp_ascii ustr_def)
  then have b': "\<forall>c \<in> set (ustr ''la''). length (py_upper_cp c) = 1"
    by (simp add: list_all_iff)
  have c: "py_upper (ustr ''LA'') = ustr ''LA''" "py_upper (ustr ''la'') = ustr ''LA''"
    by (simp_all add: py_upper_ascii ustr_def)
  from a b b' c show ?thesis
    using get_airport_code_short [of "ustr ''LA''"] get_airport_code_short [of "ustr ''la''"]
    by simp
qed

section \<open>Properties of the Geocoder and the fetchers\<close>

lemma get_city_coordinates_log:
  "fst (get_city_coordinates w city) = [Request (GeocodeReq city)] \<or>
   (\<exists>e. fst (get_city_coordinates w city) =
      [Request (GeocodeReq city), StError ''Error fetching city coordinates: '' e])"
  by (simp add: get_city_coordinates_def split: sum.splits prod.splits)

lemma get_city_coordinates_failed:
  "fetch_json (respond w (GeocodeReq city)) = Inl e \<Longrightarrow>
   get_city_coordinates w city =
     ([Request (GeocodeReq city), StError ''Error fetching city coordinates: '' e], (None, None))"
  by (simp add: get_city_coordinates_def)

lemma get_city_coordinates_empty:
  "fetch_json (respond w (GeocodeReq city)) = Inr data \<Longrightarrow> \<not> truthy data \<Longrightarrow>
   get_city_coordinates w city = ([Request (GeocodeReq city)], (None, None))"
  by (simp add: get_city_coordinates_def)

text \<open>
  C4. When the Geocoder returns the null pair, \<open>search_hotels\<close> returns the empty
  list and does nothing more than the Geocoder did: its events are those of the
  Geocoder, and no spatial query is among them.
\<close>

theorem search_hotels_without_coordinates:
  assumes "snd (get_city_coordinates w city) = (None, None)"
  shows "search_hotels w city = (fst (get_city_coordinates w city), []) \<and>
         \<not> list_ex is_overpass_request (fst (search_hotels w city))"
proof -
  from assms have r: "search_hotels w city = (fst (get_city_coordinates w city), [])"
    by (cases "get_city_coordinates w city") (simp add: search_hotels_def)
  moreover have "\<not> list_ex is_overpass_request (fst (get_city_coordinates w city))"
    using get_city_coordinates_log [of w city] by auto
  ultimately show ?thesis by simp
qed

theorem search_hotels_without_coordinates_witness:
  "snd (get_city_coordinates empty_world (ustr ''Atlantis'')) = (None, None) \<and>
   search_hotels empty_world (ustr ''Atlantis'') = ([Request (GeocodeReq (ustr ''Atlantis''))], []) \<and>
   snd (get_city_coordinates down_world (ustr ''Tokyo'')) = (None, None) \<and>
   search_hotels down_world (ustr ''Tokyo'') =
     ([Request (GeocodeReq (ustr ''Tokyo'')),
       StError ''Error fetching city coordinates: '' ConnectionError], []) \<and>
   \<not> list_ex is_overpass_request (fst (search_hotels down_world (ustr ''Tokyo'')))"
proof -
  have e: "get_city_coordinates empty_world (ustr ''Atlantis'') =
      ([Request (GeocodeReq (ustr ''Atlantis''))], (None, None))"
    by (rule get_city_coordinates_empty [where data = "JArr []"])
      (simp_all add: empty_world_def)
  have d: "get_city_coordinates down_world (ustr ''Tokyo'') =
      ([Request (GeocodeReq (ustr ''Tokyo'')),
        StError ''Error fetching city coordinates: '' ConnectionError], (None, None))"
    by (rule get_city_coordinates_failed) (simp add: down_world_def)
  from e d show ?thesis
    using search_hotels_without_coordinates [of empty_world "ustr ''Atlantis''"]
      search_hotels_without_coordinates [of down_world "ustr ''Tokyo''"]
    by simp
qed

section \<open>Properties of the Flight Finder\<close>

lemma flight_loop_length:
  "flight_loop es fs0 = Inr fs \<Longrightarrow> length fs = length fs0 + length es"
proof (induction es arbitrary: fs0)
  case Nil
  then show ?case by simp
next
  case (Cons e es)
  from Cons.prems obtain f where "build_flight e = Inr f"
    and "flight_loop es (fs0 @ [f]) = Inr fs"
    by (auto simp: and_then_eq_Inr)
  then show ?case using Cons.IH [of "fs0 @ [f]"] by simp
qed

lemma py_slice_items_length:
  "py_slice_items n v = Inr items \<Longrightarrow> length items \<le> n"
  by (cases v) auto

lemma flights_of_response_length:
  assumes "flights_of_response data = Inr fs"
  shows "length fs \<le> 3"
proof -
  from assms obtain entries items where "py_slice_items 3 entries = Inr items"
    and "flight_loop items [] = Inr fs"
    by (auto simp: flights_of_response_def and_then_eq_Inr)
  then show ?thesis
    using py_slice_items_length [of 3 entries items] flight_loop_length [of items "[]" fs]
    by simp
qed

lemma search_flights_failed:
  "and_then (fetch_json (respond w (FlightsReq origin destination))) flights_of_response = Inl e
   \<Longrightarrow> search_flights w origin destination =
     ([Request (FlightsReq origin destination), StError ''Error fetching flight data: '' e], [])"
  by (simp add: search_flights_def)

text \<open>
  C6, as stated: a reply with a status outside 200..299 gives the empty list. The only
  status check is \<^verbatim>\<open>raise_for_status()\<close>, which lets the status 300 pass: the body
  is read and three records are returned.
\<close>

theorem status_counterexample:
  "respond redirect_world (FlightsReq (ustr ''LHR'') (ustr ''HND'')) =
     Reply 300 (Some four_flights) \<and>
   \<not> (200 \<le> (300::nat) \<and> (300::nat) < 300) \<and>
   fst (search_flights redirect_world (ustr ''LHR'') (ustr ''HND'')) =
     [Request (FlightsReq (ustr ''LHR'') (ustr ''HND''))] \<and>
   length (snd (search_flights redirect_world (ustr ''LHR'') (ustr ''HND''))) = 3 \<and>
   snd (search_flights redirect_world (ustr ''LHR'') (ustr ''HND'')) \<noteq> []"
proof -
  have r: "respond redirect_world (FlightsReq (ustr ''LHR'') (ustr ''HND'')) =
     Reply 300 (Some four_flights)"
    by (simp add: redirect_world_def)
  have l: "fst (search_flights redirect_world (ustr ''LHR'') (ustr ''HND'')) =
     [Request (FlightsReq (ustr ''LHR'') (ustr ''HND''))]"
    "length (snd (search_flights redirect_world (ustr ''LHR'') (ustr ''HND''))) = 3"
    by code_simp+
  from l(2) have "snd (search_flights redirect_world (ustr ''LHR'') (ustr ''HND'')) \<noteq> []"
    by auto
  with r l show ?thesis by simp
qed

text \<open>
  C6, amended. \<open>search_flights\<close> returns at most three records, however many entries
  the data list has. When the request gets no reply, a status from 400 to 599 or a body
  that is not JSON, or when reading the payload raises, it shows the error and returns
  the empty list. Its result is always a list: nothing is raised. A reply with any other
  status is read like a reply with the status 200.
\<close>

theorem search_flights_at_most_three:
  "length (snd (search_flights w origin destination)) \<le> 3 \<and>
   (respond w (FlightsReq origin destination) = NoReply \<or>
    respond w (FlightsReq origin destination) = Reply status body \<and>
      (400 \<le> status \<and> status < 600 \<or> body = None) \<longrightarrow>
      (\<exists>x. search_flights w origin destination =
         ([Request (FlightsReq origin destination),
           StError ''Error fetching flight data: '' x], []))) \<and>
   (respond w (FlightsReq origin destination) = Reply status (Some data) \<and>
    (status < 400 \<or> 600 \<le> status) \<and> flights_of_response data = Inl e \<longrightarrow>
      search_flights w origin destination =
        ([Request (FlightsReq origin destination),
          StError ''Error fetching flight data: '' e], [])) \<and>
   (respond w (FlightsReq origin destination) = Reply status (Some data) \<and>
    (status < 400 \<or> 600 \<le> status) \<longrightarrow>
      search_flights w origin destination =
        search_flights (w\<lparr>respond := (\<lambda>rq. Reply 200 (Some data))\<rparr>) origin destination)"
proof (intro conjI impI)
  show "length (snd (search_flights w origin destination)) \<le> 3"
  proof (cases "and_then (fetch_json (respond w (FlightsReq origin destination)))
                  flights_of_response")
    case (Inl e)
    then show ?thesis by (simp add: search_flights_failed)
  next
    case (Inr fs)
    then obtain data where "flights_of_response data = Inr fs"
      by (auto simp: and_then_eq_Inr)
    then have "length fs \<le> 3" by (rule flights_of_response_length)
    with Inr show ?thesis by (simp add: search_flights_def)
  qed
next
  assume "respond w (FlightsReq origin destination) = NoReply \<or>
    respond w (FlightsReq origin destination) = Reply status body \<and>
      (400 \<le> status \<and> status < 600 \<or> body = None)"
  then have "\<exists>x. and_then (fetch_json (respond w (FlightsReq origin destination)))
      flights_of_response = Inl x"
    by auto
  then show "\<exists>x. search_flights w origin destination =
         ([Request (FlightsReq origin destination),
           StError ''Error fetching flight data: '' x], [])"
    using search_flights_failed by blast
next
  assume "respond w (FlightsReq origin destination) = Reply status (Some data) \<and>
    (status < 400 \<or> 600 \<le> status) \<and> flights_of_response data = Inl e"
  then have "and_then (fetch_json (respond w (FlightsReq origin destination)))
      flights_of_response = Inl e"
    by auto
  then show "search_flights w origin destination =
        ([Request (FlightsReq origin destination),
          StError ''Error fetching flight data: '' e], [])"
    by (rule search_flights_failed)
next
  assume "respond w (FlightsReq origin destination) = Reply status (Some data) \<and>
    (status < 400 \<or> 600 \<le> status)"
  then show "search_flights w origin destination =
        search_flights (w\<lparr>respond := (\<lambda>rq. Reply 200 (Some data))\<rparr>) origin destination"
    by (auto simp: search_flights_def)
qed

theorem search_flights_at_most_three_witness:
  "length (response_entries four_flights) = 4 \<and>
   length (snd (search_flights tokyo_world (ustr ''LHR'') (ustr ''HND''))) = 3 \<and>
   length (snd (search_flights tokyo_world (ustr ''LHR'') (ustr ''HND''))) \<le> 3 \<and>
   respond down_world (FlightsReq (ustr ''LHR'') (ustr ''HND'')) = NoReply \<and>
   snd (search_flights down_world (ustr ''LHR'') (ustr ''HND'')) = [] \<and>
   respond unavailable_world (FlightsReq (ustr ''LHR'') (ustr ''HND'')) =
     Reply 503 (Some four_flights) \<and>
   snd (search_flights unavailable_world (ustr ''LHR'') (ustr ''HND'')) = [] \<and>
   respond bad_flights_world (FlightsReq (ustr ''LHR'') (ustr ''HND'')) =
     Reply 200 (Some (JObj [(ustr ''data'', JArr [JNull])])) \<and>
   flights_of_response (JObj [(ustr ''data'', JArr [JNull])]) = Inl AttributeError \<and>
   search_flights bad_flights_world (ustr ''LHR'') (ustr ''HND'') =
     ([Request (FlightsReq (ustr ''LHR'') (ustr ''HND'')),
       StError ''Error fetching flight data: '' AttributeError], []) \<and>
   respond redirect_world (FlightsReq (ustr ''LHR'') (ustr ''HND'')) =
     Reply 300 (Some four_flights) \<and>
   search_flights redirect_world (ustr ''LHR'') (ustr ''HND'') =
     search_flights (redirect_world\<lparr>respond := (\<lambda>rq. Reply 200 (Some four_flights))\<rparr>)
       (ustr ''LHR'') (ustr ''HND'')"
proof -
  have a: "length (response_entries four_flights) = 4"
    by code_simp
  have b: "length (snd (search_flights tokyo_world (ustr ''LHR'') (ustr ''HND''))) = 3"
    by code_simp
  have c: "respond down_world (FlightsReq (ustr ''LHR'') (ustr ''HND'')) = NoReply"
    by (simp add: down_world_def)
  have d: "respond bad_flights_world (FlightsReq (ustr ''LHR'') (ustr ''HND'')) =
     Reply 200 (Some (JObj [(ustr ''data'', JArr [JNull])]))"
    by (simp add: bad_flights_world_def)
  have e: "flights_of_response (JObj [(ustr ''data'', JArr [JNull])]) = Inl AttributeError"
    by code_simp
  have f: "respond unavailable_world (FlightsReq (ustr ''LHR'') (ustr ''HND'')) =
     Reply 503 (Some four_flights)"
    by (simp add: unavailable_world_def)
  have g: "respond redirect_world (FlightsReq (ustr ''LHR'') (ustr ''HND'')) =
     Reply 300 (Some four_flights)"
    by (simp add: redirect_world_def)
  from a b c d e f g show ?thesis
    using search_flights_at_most_three [of tokyo_world "ustr ''LHR''" "ustr ''HND''"]
      search_flights_at_most_three [of down_world "ustr ''LHR''" "ustr ''HND''"]
      search_flights_at_most_three [of unavailable_world "ustr ''LHR''" "ustr ''HND''"
        503 "Some four_flights"]
      search_flights_at_most_three [of bad_flights_world "ustr ''LHR''" "ustr ''HND''"
        200 "Some (JObj [(ustr ''data'', JArr [JNull])])" "JObj [(ustr ''data'', JArr [JNull])]"
        AttributeError]
      search_flights_at_most_three [of redirect_world "ustr ''LHR''" "ustr ''HND''"
        300 "Some four_flights" four_flights]
    by auto
qed

lemma nested_get_absent:
  "absent entry k1 k2 \<Longrightarrow> nested_get (JObj entry) k1 k2 d = Inr (JStr (ustr d))"
  by (auto simp: absent_def nested_get_def dict_get_def split: option.splits json.splits)

text \<open>
  C8, as stated: every field defaults to \<^verbatim>\<open>Unknown\<close>. For an entry with no field at
  all, the airline is \<^verbatim>\<open>Unknown Airline\<close>.
\<close>

theorem flight_defaults_counterexample:
  "absent [] (ustr ''airline'') (ustr ''name'') \<and>
   build_flight (JObj []) =
     Inr \<lparr>airline = JStr (ustr ''Unknown Airline''), flight_number = JStr (ustr ''Unknown''),
          departure = JStr (ustr ''Unknown''), arrival = JStr (ustr ''Unknown'')\<rparr> \<and>
   JStr (ustr ''Unknown Airline'') \<noteq> JStr (ustr ''Unknown'')"
  by code_simp

text \<open>
  C8, amended. In a record built from an entry, each of the four fields has its own
  default, used when the field is absent whatever the other fields are: the airline name
  defaults to \<^verbatim>\<open>Unknown Airline\<close>, the flight number and the two scheduled times to
  \<^verbatim>\<open>Unknown\<close>.
\<close>

theorem build_flight_defaults:
  assumes "build_flight (JObj entry) = Inr f"
  shows "(absent entry (ustr ''airline'') (ustr ''name'') \<longrightarrow>
            airline f = JStr (ustr ''Unknown Airline'')) \<and>
         (absent entry (ustr ''flight'') (ustr ''number'') \<longrightarrow>
            flight_number f = JStr (ustr ''Unknown'')) \<and>
         (absent entry (ustr ''departure'') (ustr ''scheduled'') \<longrightarrow>
            departure f = JStr (ustr ''Unknown'')) \<and>
         (absent entry (ustr ''arrival'') (ustr ''scheduled'') \<longrightarrow>
            arrival f = JStr (ustr ''Unknown''))"
proof -
  from assms obtain a n d r
    where a: "nested_get (JObj entry) (ustr ''airline'') (ustr ''name'') ''Unknown Airline'' = Inr a"
      and n: "nested_get (JObj entry) (ustr ''flight'') (ustr ''number'') ''Unknown'' = Inr n"
      and d: "nested_get (JObj entry) (ustr ''departure'') (ustr ''scheduled'') ''Unknown'' = Inr d"
      and r: "nested_get (JObj entry) (ustr ''arrival'') (ustr ''scheduled'') ''Unknown'' = Inr r"
      and f: "f = \<lparr>airline = a, flight_number = n, departure = d, arrival = r\<rparr>"
    unfolding build_flight_def and_then_eq_Inr by blast
  show ?thesis
  proof (intro conjI impI)
    assume "absent entry (ustr ''airline'') (ustr ''name'')"
    from nested_get_absent [OF this] a f show "airline f = JStr (ustr ''Unknown Airline'')"
      by simp
  next
    assume "absent entry (ustr ''flight'') (ustr ''number'')"
    from nested_get_absent [OF this] n f show "flight_number f = JStr (ustr ''Unknown'')"
      by simp
  next
    assume "absent entry (ustr ''departure'') (ustr ''scheduled'')"
    from nested_get_absent [OF this] d f show "departure f = JStr (ustr ''Unknown'')"
      by simp
  next
    assume "absent entry (ustr ''arrival'') (ustr ''scheduled'')"
    from nested_get_absent [OF this] r f show "arrival f = JStr (ustr ''Unknown'')"
      by simp
  qed
qed

theorem build_flight_defaults_witness:
  "build_flight (JObj partial_entry) =
     Inr \<lparr>airline = JStr (ustr ''Unknown Airline''), flight_number = JStr (ustr ''7''),
          departure = JStr (ustr ''Unknown''), arrival = JStr (ustr ''Unknown'')\<rparr> \<and>
   absent partial_entry (ustr ''airline'') (ustr ''name'') \<and>
   \<not> absent partial_entry (ustr ''flight'') (ustr ''number'') \<and>
   absent partial_entry (ustr ''departure'') (ustr ''scheduled'') \<and>
   absent partial_entry (ustr ''arrival'') (ustr ''scheduled'') \<and>
   airline \<lparr>airline = JStr (ustr ''Unknown Airline''), flight_number = JStr (ustr ''7''),
          departure = JStr (ustr ''Unknown''), arrival = JStr (ustr ''Unknown'')\<rparr>
     = JStr (ustr ''Unknown Airline'')"
proof -
  have b: "build_flight (JObj partial_entry) =
     Inr \<lparr>airline = JStr (ustr ''Unknown Airline''), flight_number = JStr (ustr ''7''),
          departure = JStr (ustr ''Unknown''), arrival = JStr (ustr ''Unknown'')\<rparr>"
    by code_simp
  have a: "absent partial_entry (ustr ''airline'') (ustr ''name'')"
    "\<not> absent partial_entry (ustr ''flight'') (ustr ''number'')"
    "absent partial_entry (ustr ''departure'') (ustr ''scheduled'')"
    "absent partial_entry (ustr ''arrival'') (ustr ''scheduled'')"
    by code_simp+
  from a b build_flight_defaults [OF b] show ?thesis
    by blast
qed

section \<open>Determinism of the two finders\<close>

lemma py_float_cong:
  "str_to_float w1 = str_to_float w2 \<Longrightarrow> int_to_float w1 = int_to_float w2 \<Longrightarrow>
   py_float w1 v = py_float w2 v"
  by (cases v) simp_all

lemma first_coordinates_cong:
  "str_to_float w1 = str_to_float w2 \<Longrightarrow> int_to_float w1 = int_to_float w2 \<Longrightarrow>
   first_coordinates w1 data = first_coordinates w2 data"
  by (simp add: first_coordinates_def py_float_cong [of w1 w2])

lemma get_city_coordinates_cong:
  assumes "respond w1 = respond w2"
    and "str_to_float w1 = str_to_float w2"
    and "int_to_float w1 = int_to_float w2"
  shows "get_city_coordinates w1 city = get_city_coordinates w2 city"
proof -
  have fc: "first_coordinates w1 = first_coordinates w2"
    by (intro ext) (rule first_coordinates_cong [OF assms(2,3)])
  show ?thesis
    unfolding get_city_coordinates_def assms(1) fc by (rule refl)
qed

text \<open>
  C9. Two runs in worlds whose services give the same replies and whose \<^verbatim>\<open>float()\<close>
  is the same give the same hotel records and the same flight records, and the same
  events, whatever else differs between the worlds (the language model's answers): the
  two finders read nothing else.
\<close>

theorem finders_deterministic:
  assumes "respond w1 = respond w2"
    and "str_to_float w1 = str_to_float w2"
    and "int_to_float w1 = int_to_float w2"
  shows "search_hotels w1 city = search_hotels w2 city \<and>
         search_flights w1 origin destination = search_flights w2 origin destination"
proof -
  have gc: "get_city_coordinates w1 = get_city_coordinates w2"
    by (intro ext) (rule get_city_coordinates_cong [OF assms])
  have "search_hotels w1 city = search_hotels w2 city"
    unfolding search_hotels_def assms(1) gc by (rule refl)
  moreover have "search_flights w1 origin destination = search_flights w2 origin destination"
    unfolding search_flights_def assms(1) by (rule refl)
  ultimately show ?thesis by simp
qed

theorem finders_deterministic_witness:
  "respond tokyo_world = respond tokyo_world' \<and>
   str_to_float tokyo_world = str_to_float tokyo_world' \<and>
   int_to_float tokyo_world = int_to_float tokyo_world' \<and>
   llm_invoke tokyo_world (ustr ''Tokyo'') 3 (ustr ''April'')
     \<noteq> llm_invoke tokyo_world' (ustr ''Tokyo'') 3 (ustr ''April'') \<and>
   search_hotels tokyo_world (ustr ''Tokyo'') = search_hotels tokyo_world' (ustr ''Tokyo'') \<and>
   search_flights tokyo_world (ustr ''LHR'') (ustr ''HND'')
     = search_flights tokyo_world' (ustr ''LHR'') (ustr ''HND'') \<and>
   length (snd (search_hotels tokyo_world (ustr ''Tokyo''))) = 3"
proof -
  have a: "respond tokyo_world = respond tokyo_world'"
    "str_to_float tokyo_world = str_to_float tokyo_world'"
    "int_to_float tokyo_world = int_to_float tokyo_world'"
    by (simp_all add: tokyo_world'_def)
  have b: "llm_invoke tokyo_world (ustr ''Tokyo'') 3 (ustr ''April'')
     \<noteq> llm_invoke tokyo_world' (ustr ''Tokyo'') 3 (ustr ''April'')"
    by (simp add: tokyo_world'_def tokyo_world_def ustr_def)
  have c: "length (snd (search_hotels tokyo_world (ustr ''Tokyo''))) = 3"
    by code_simp
  from a b c finders_deterministic [OF a, of "ustr ''Tokyo''" "ustr ''LHR''" "ustr ''HND''"]
  show ?thesis by blast
qed

section \<open>Properties of the Presentation Layer\<close>

lemma get_weather_data_failed:
  "fetch_json (respond w (WeatherReq city)) = Inl e \<Longrightarrow>
   get_weather_data w city =
     ([Request (WeatherReq city), StError ''Error fetching weather data: '' e], JObj [])"
  by (simp add: get_weather_data_def)

lemma get_weather_data_log:
  "\<not> list_ex hotel_or_flight_event (fst (get_weather_data w city))"
  by (simp add: get_weather_data_def split: sum.splits)

lemma weather_section_log:
  "\<not> list_ex hotel_or_flight_event (fst (weather_section weather_data))"
  by (simp add: weather_section_def split: sum.splits prod.splits)

lemma weather_section_skipped:
  "\<not> truthy weather_data \<Longrightarrow> weather_section weather_data = ([], Inr ())"
  by (simp add: weather_section_def)

lemma main_narrative_failed:
  assumes "llm_invoke w city days month = Inl e"
  shows "main w city days month origin_city =
    (case weather_section (snd (get_weather_data w city)) of
       (log2, Inl e') \<Rightarrow> (fst (get_weather_data w city) @ log2, Inl e')
     | (log2, Inr u) \<Rightarrow>
         (fst (get_weather_data w city) @ log2 @ [LlmInvoke city days month], Inl e))"
  using assms
  by (simp add: main_def generate_trip_plan_def split: prod.splits sum.splits)

lemma get_weather_data_empty:
  "fetch_json (respond w (WeatherReq city)) = Inr data \<Longrightarrow>
   get_weather_data w city = ([Request (WeatherReq city)], data)"
  by (simp add: get_weather_data_def)

lemma get_weather_data_no_heading: "StSubheader h \<notin> set (fst (get_weather_data w city))"
  by (simp add: get_weather_data_def split: sum.splits)

lemma get_city_coordinates_no_heading:
  "StSubheader h \<notin> set (fst (get_city_coordinates w city))"
  using get_city_coordinates_log [of w city] by auto

lemma search_hotels_no_heading: "StSubheader h \<notin> set (fst (search_hotels w city))"
proof (cases "get_city_coordinates w city")
  case (fields log lt ln)
  with get_city_coordinates_no_heading [of h w city] have "StSubheader h \<notin> set log"
    by simp
  with fields show ?thesis
    by (simp add: search_hotels_def split: option.splits sum.splits)
qed

lemma search_flights_no_heading:
  "StSubheader h \<notin> set (fst (search_flights w origin destination))"
  by (simp add: search_flights_def split: sum.splits)

lemma hotel_section_no_heading: "StSubheader h \<notin> set (hotel_section hotels)"
  by (auto simp: hotel_section_def render_hotel_def)

lemma flight_section_no_heading: "StSubheader h \<notin> set (flight_section flights)"
  by (auto simp: flight_section_def render_flight_def)

lemma main_weather_skipped:
  assumes "\<not> truthy (snd (get_weather_data w city))"
  shows "main w city days month origin_city =
    (case llm_invoke w city days month of
       Inl e \<Rightarrow> (fst (get_weather_data w city) @ [LlmInvoke city days month], Inl e)
     | Inr trip_plan \<Rightarrow>
         (fst (get_weather_data w city) @ [LlmInvoke city days month]
            @ [StSubheader YourTripPlan, StWrite [Str trip_plan]]
            @ [StSubheader HotelOptions] @ fst (search_hotels w city)
            @ hotel_section (snd (search_hotels w city))
            @ [StSubheader FlightOptions]
            @ fst (search_flights w (get_airport_code origin_city) (get_airport_code city))
            @ flight_section
                (snd (search_flights w (get_airport_code origin_city) (get_airport_code city))),
          Inr ()))"
proof (cases "get_weather_data w city")
  case (Pair log1 weather_data)
  with assms have "weather_section weather_data = ([], Inr ())"
    by (simp add: weather_section_skipped)
  with Pair show ?thesis
    by (cases "llm_invoke w city days month")
      (simp_all add: main_def generate_trip_plan_def split: prod.splits)
qed

text \<open>
  C7, as stated: with an empty weather response the weather section shows a notice. In
  the world whose weather service answers with an empty object, the Weather Fetcher
  returns the empty dict without a notice and the section writes nothing at all: the
  first event after the weather request is the call of the language model.
\<close>

theorem weather_section_counterexample:
  "get_weather_data empty_world (ustr ''Tokyo'') =
     ([Request (WeatherReq (ustr ''Tokyo''))], JObj []) \<and>
   weather_section (JObj []) = ([], Inr ()) \<and>
   take 2 (fst (main empty_world (ustr ''Tokyo'') 3 (ustr ''April'') (ustr ''London''))) =
     [Request (WeatherReq (ustr ''Tokyo'')), LlmInvoke (ustr ''Tokyo'') 3 (ustr ''April'')] \<and>
   \<not> list_ex is_notice
       (take 2 (fst (main empty_world (ustr ''Tokyo'') 3 (ustr ''April'') (ustr ''London''))))"
proof -
  have g: "get_weather_data empty_world (ustr ''Tokyo'') =
     ([Request (WeatherReq (ustr ''Tokyo''))], JObj [])"
    by (simp add: get_weather_data_def empty_world_def)
  have s: "weather_section (JObj []) = ([], Inr ())"
    by (simp add: weather_section_def)
  have l: "llm_invoke empty_world (ustr ''Tokyo'') 3 (ustr ''April'') = Inr (ustr ''A plan'')"
    by (simp add: empty_world_def)
  have "take 2 (fst (main empty_world (ustr ''Tokyo'') 3 (ustr ''April'') (ustr ''London''))) =
     [Request (WeatherReq (ustr ''Tokyo'')), LlmInvoke (ustr ''Tokyo'') 3 (ustr ''April'')]"
    using g l by (simp add: main_weather_skipped)
  with g s show ?thesis by simp
qed

text \<open>
  C7, amended. With an empty weather result the weather section is skipped: it writes
  nothing, neither a heading nor a notice, and raises nothing, so that the events of
  \<^verbatim>\<open>main\<close> are those of the Weather Fetcher, then the call of the language model, and
  \<^verbatim>\<open>main\<close> ends as the rest of it does. After a failed call the result is the empty
  dict and the one notice is the error the Weather Fetcher itself has shown; after an
  empty response the Weather Fetcher has shown nothing.
\<close>

theorem weather_section_empty:
  "(\<not> truthy (snd (get_weather_data w city)) \<longrightarrow>
      weather_section (snd (get_weather_data w city)) = ([], Inr ()) \<and>
      take (Suc (length (fst (get_weather_data w city))))
          (fst (main w city days month origin_city)) =
        fst (get_weather_data w city) @ [LlmInvoke city days month] \<and>
      StSubheader WeatherInformation \<notin> set (fst (main w city days month origin_city)) \<and>
      snd (main w city days month origin_city) =
        (case llm_invoke w city days month of Inl x \<Rightarrow> Inl x | Inr trip_plan \<Rightarrow> Inr ())) \<and>
   (fetch_json (respond w (WeatherReq city)) = Inl e \<longrightarrow>
      get_weather_data w city =
        ([Request (WeatherReq city), StError ''Error fetching weather data: '' e], JObj []) \<and>
      weather_section (snd (get_weather_data w city)) = ([], Inr ())) \<and>
   (fetch_json (respond w (WeatherReq city)) = Inr data \<and> \<not> truthy data \<longrightarrow>
      get_weather_data w city = ([Request (WeatherReq city)], data) \<and>
      weather_section (snd (get_weather_data w city)) = ([], Inr ()))"
proof (intro conjI impI)
  assume a: "\<not> truthy (snd (get_weather_data w city))"
  note m = main_weather_skipped [OF a, of days month origin_city]
  show "weather_section (snd (get_weather_data w city)) = ([], Inr ())"
    using a by (rule weather_section_skipped)
  show "take (Suc (length (fst (get_weather_data w city))))
          (fst (main w city days month origin_city)) =
        fst (get_weather_data w city) @ [LlmInvoke city days month]"
    unfolding m by (cases "llm_invoke w city days month") simp_all
  show "StSubheader WeatherInformation \<notin> set (fst (main w city days month origin_city))"
    unfolding m
    by (cases "llm_invoke w city days month")
      (simp_all add: get_weather_data_no_heading search_hotels_no_heading
        search_flights_no_heading hotel_section_no_heading flight_section_no_heading)
  show "snd (main w city days month origin_city) =
        (case llm_invoke w city days month of Inl x \<Rightarrow> Inl x | Inr trip_plan \<Rightarrow> Inr ())"
    unfolding m by (cases "llm_invoke w city days month") simp_all
next
  assume "fetch_json (respond w (WeatherReq city)) = Inl e"
  then show "get_weather_data w city =
        ([Request (WeatherReq city), StError ''Error fetching weather data: '' e], JObj [])"
    by (rule get_weather_data_failed)
  then show "weather_section (snd (get_weather_data w city)) = ([], Inr ())"
    by (simp add: weather_section_skipped)
next
  assume a: "fetch_json (respond w (WeatherReq city)) = Inr data \<and> \<not> truthy data"
  then show "get_weather_data w city = ([Request (WeatherReq city)], data)"
    by (simp add: get_weather_data_empty)
  with a show "weather_section (snd (get_weather_data w city)) = ([], Inr ())"
    by (simp add: weather_section_skipped)
qed

theorem weather_section_empty_witness:
  "fetch_json (respond empty_world (WeatherReq (ustr ''Tokyo''))) = Inr (JObj []) \<and>
   \<not> truthy (JObj []) \<and>
   get_weather_data empty_world (ustr ''Tokyo'') = ([Request (WeatherReq (ustr ''Tokyo''))], JObj []) \<and>
   weather_section (snd (get_weather_data empty_world (ustr ''Tokyo''))) = ([], Inr ()) \<and>
   take 2 (fst (main empty_world (ustr ''Tokyo'') 3 (ustr ''April'') (ustr ''London''))) =
     [Request (WeatherReq (ustr ''Tokyo'')), LlmInvoke (ustr ''Tokyo'') 3 (ustr ''April'')] \<and>
   StSubheader WeatherInformation
     \<notin> set (fst (main empty_world (ustr ''Tokyo'') 3 (ustr ''April'') (ustr ''London''))) \<and>
   snd (main empty_world (ustr ''Tokyo'') 3 (ustr ''April'') (ustr ''London'')) = Inr () \<and>
   fetch_json (respond down_world (WeatherReq (ustr ''Tokyo''))) = Inl ConnectionError \<and>
   get_weather_data down_world (ustr ''Tokyo'') =
     ([Request (WeatherReq (ustr ''Tokyo'')),
       StError ''Error fetching weather data: '' ConnectionError], JObj []) \<and>
   weather_section (snd (get_weather_data down_world (ustr ''Tokyo''))) = ([], Inr ()) \<and>
   take 3 (fst (main down_world (ustr ''Tokyo'') 3 (ustr ''April'') (ustr ''London''))) =
     [Request (WeatherReq (ustr ''Tokyo'')),
      StError ''Error fetching weather data: '' ConnectionError,
      LlmInvoke (ustr ''Tokyo'') 3 (ustr ''April'')] \<and>
   snd (main down_world (ustr ''Tokyo'') 3 (ustr ''April'') (ustr ''London'')) = Inl ServiceError"
proof -
  let ?M = "main empty_world (ustr ''Tokyo'') 3 (ustr ''April'') (ustr ''London'')"
  let ?D = "main down_world (ustr ''Tokyo'') 3 (ustr ''April'') (ustr ''London'')"
  have a: "fetch_json (respond empty_world (WeatherReq (ustr ''Tokyo''))) = Inr (JObj [])"
    "\<not> truthy (JObj [])"
    by (simp_all add: empty_world_def)
  have la: "llm_invoke empty_world (ustr ''Tokyo'') 3 (ustr ''April'') = Inr (ustr ''A plan'')"
    by (simp add: empty_world_def)
  have b: "fetch_json (respond down_world (WeatherReq (ustr ''Tokyo''))) = Inl ConnectionError"
    by (simp add: down_world_def)
  have lb: "llm_invoke down_world (ustr ''Tokyo'') 3 (ustr ''April'') = Inl ServiceError"
    by (simp add: down_world_def)
  note e = weather_section_empty [of empty_world "ustr ''Tokyo''" 3 "ustr ''April''"
      "ustr ''London''" _ "JObj []"]
  note d = weather_section_empty [of down_world "ustr ''Tokyo''" 3 "ustr ''April''"
      "ustr ''London''" ConnectionError]
  from a e have e1: "get_weather_data empty_world (ustr ''Tokyo'') =
      ([Request (WeatherReq (ustr ''Tokyo''))], JObj [])"
    by blast
  from b d have d1: "get_weather_data down_world (ustr ''Tokyo'') =
     ([Request (WeatherReq (ustr ''Tokyo'')),
       StError ''Error fetching weather data: '' ConnectionError], JObj [])"
    by blast
  from e1 have en: "\<not> truthy (snd (get_weather_data empty_world (ustr ''Tokyo'')))"
    by simp
  from d1 have dn: "\<not> truthy (snd (get_weather_data down_world (ustr ''Tokyo'')))"
    by simp
  from e en have e2:
    "weather_section (snd (get_weather_data empty_world (ustr ''Tokyo''))) = ([], Inr ())"
    "take (Suc (length (fst (get_weather_data empty_world (ustr ''Tokyo''))))) (fst ?M) =
       fst (get_weather_data empty_world (ustr ''Tokyo''))
         @ [LlmInvoke (ustr ''Tokyo'') 3 (ustr ''April'')]"
    "StSubheader WeatherInformation \<notin> set (fst ?M)"
    "snd ?M = (case llm_invoke empty_world (ustr ''Tokyo'') 3 (ustr ''April'') of
                 Inl x \<Rightarrow> Inl x | Inr trip_plan \<Rightarrow> Inr ())"
    by blast+
  from d dn have d2:
    "weather_section (snd (get_weather_data down_world (ustr ''Tokyo''))) = ([], Inr ())"
    "take (Suc (length (fst (get_weather_data down_world (ustr ''Tokyo''))))) (fst ?D) =
       fst (get_weather_data down_world (ustr ''Tokyo''))
         @ [LlmInvoke (ustr ''Tokyo'') 3 (ustr ''April'')]"
    "snd ?D = (case llm_invoke down_world (ustr ''Tokyo'') 3 (ustr ''April'') of
                 Inl x \<Rightarrow> Inl x | Inr trip_plan \<Rightarrow> Inr ())"
    by blast+
  from e2(2) have e3: "take 2 (fst ?M) =
     [Request (WeatherReq (ustr ''Tokyo'')), LlmInvoke (ustr ''Tokyo'') 3 (ustr ''April'')]"
    by (simp add: e1 numeral_2_eq_2)
  from d2(2) have d3: "take 3 (fst ?D) =
     [Request (WeatherReq (ustr ''Tokyo'')),
      StError ''Error fetching weather data: '' ConnectionError,
      LlmInvoke (ustr ''Tokyo'') 3 (ustr ''April'')]"
    by (simp add: d1 numeral_3_eq_3)
  from e2(4) have e4: "snd ?M = Inr ()" by (simp add: la)
  from d2(3) have d4: "snd ?D = Inl ServiceError" by (simp add: lb)
  from a b e1 d1 e2(1,3) d2(1) e3 d3 e4 d4 show ?thesis
    by (intro conjI)
qed

text \<open>
  C5. When the call of the language model raises, \<open>generate_trip_plan\<close> raises the
  same exception, and \<open>main\<close> ends with an exception: with this one, right after the
  call, when the weather section did not raise before. No event of the hotel or flight
  steps occurs. The four fetchers, in contrast, turn every failure of their request, and
  every exception raised while they read the reply, into an empty or null result.
\<close>

theorem narrative_failure_aborts:
  assumes "llm_invoke w city days month = Inl e"
  shows "snd (generate_trip_plan w city days month) = Inl e \<and>
         (\<exists>e'. snd (main w city days month origin_city) = Inl e') \<and>
         (snd (weather_section (snd (get_weather_data w city))) = Inr () \<longrightarrow>
            main w city days month origin_city =
              (fst (get_weather_data w city) @ fst (weather_section (snd (get_weather_data w city)))
                 @ [LlmInvoke city days month], Inl e)) \<and>
         \<not> list_ex hotel_or_flight_event (fst (main w city days month origin_city)) \<and>
         (fetch_json (respond w (WeatherReq c)) = Inl x \<longrightarrow> snd (get_weather_data w c) = JObj []) \<and>
         (fetch_json (respond w (GeocodeReq c)) = Inl x \<longrightarrow>
            snd (get_city_coordinates w c) = (None, None) \<and> snd (search_hotels w c) = []) \<and>
         (fetch_json (respond w (GeocodeReq c)) = Inr data \<and> truthy data \<and>
          first_coordinates w data = Inl x \<longrightarrow>
            snd (get_city_coordinates w c) = (None, None) \<and> snd (search_hotels w c) = []) \<and>
         (and_then (fetch_json (respond w (OverpassReq 5000 lt ln))) (hotels_of_response c) = Inl x \<and>
          snd (get_city_coordinates w c) = (Some lt, Some ln) \<longrightarrow> snd (search_hotels w c) = []) \<and>
         (and_then (fetch_json (respond w (FlightsReq a b))) flights_of_response = Inl x \<longrightarrow>
            snd (search_flights w a b) = [])"
proof -
  note m = main_narrative_failed [OF assms, of origin_city]
  have 1: "snd (generate_trip_plan w city days month) = Inl e"
    using assms by (simp add: generate_trip_plan_def)
  have 2: "\<exists>e'. snd (main w city days month origin_city) = Inl e'"
    unfolding m by (simp split: prod.splits sum.splits)
  have 3: "snd (weather_section (snd (get_weather_data w city))) = Inr () \<longrightarrow>
            main w city days month origin_city =
              (fst (get_weather_data w city) @ fst (weather_section (snd (get_weather_data w city)))
                 @ [LlmInvoke city days month], Inl e)"
    unfolding m by (simp split: prod.splits sum.splits)
  have 4: "\<not> list_ex hotel_or_flight_event (fst (main w city days month origin_city))"
  proof (cases "weather_section (snd (get_weather_data w city))")
    case (Pair log2 r)
    with weather_section_log [of "snd (get_weather_data w city)"]
    have "\<not> list_ex hotel_or_flight_event log2" by simp
    with Pair get_weather_data_log [of w city] show ?thesis
      unfolding m by (cases r) simp_all
  qed
  have 5: "fetch_json (respond w (WeatherReq c)) = Inl x \<longrightarrow> snd (get_weather_data w c) = JObj []"
    by (simp add: get_weather_data_failed)
  have 6: "fetch_json (respond w (GeocodeReq c)) = Inl x \<longrightarrow>
            snd (get_city_coordinates w c) = (None, None) \<and> snd (search_hotels w c) = []"
    by (simp add: get_city_coordinates_failed search_hotels_def)
  have 9: "fetch_json (respond w (GeocodeReq c)) = Inr data \<and> truthy data \<and>
          first_coordinates w data = Inl x \<longrightarrow>
            snd (get_city_coordinates w c) = (None, None) \<and> snd (search_hotels w c) = []"
    by (simp add: get_city_coordinates_def search_hotels_def)
  have 7: "and_then (fetch_json (respond w (OverpassReq 5000 lt ln))) (hotels_of_response c) = Inl x \<and>
          snd (get_city_coordinates w c) = (Some lt, Some ln) \<longrightarrow> snd (search_hotels w c) = []"
    by (cases "get_city_coordinates w c") (auto simp: search_hotels_def)
  have 8: "and_then (fetch_json (respond w (FlightsReq a b))) flights_of_response = Inl x \<longrightarrow>
            snd (search_flights w a b) = []"
    by (simp add: search_flights_failed)
  from 1 2 3 4 5 6 7 8 9 show ?thesis by blast
qed

theorem narrative_failure_aborts_witness:
  "llm_invoke down_world (ustr ''Tokyo'') 3 (ustr ''April'') = Inl ServiceError \<and>
   snd (generate_trip_plan down_world (ustr ''Tokyo'') 3 (ustr ''April'')) = Inl ServiceError \<and>
   main down_world (ustr ''Tokyo'') 3 (ustr ''April'') (ustr ''London'') =
     ([Request (WeatherReq (ustr ''Tokyo'')),
       StError ''Error fetching weather data: '' ConnectionError,
       LlmInvoke (ustr ''Tokyo'') 3 (ustr ''April'')], Inl ServiceError) \<and>
   \<not> list_ex hotel_or_flight_event
       (fst (main down_world (ustr ''Tokyo'') 3 (ustr ''April'') (ustr ''London''))) \<and>
   snd (get_weather_data down_world (ustr ''Tokyo'')) = JObj [] \<and>
   snd (get_city_coordinates down_world (ustr ''Tokyo'')) = (None, None) \<and>
   snd (search_hotels down_world (ustr ''Tokyo'')) = [] \<and>
   snd (search_flights down_world (ustr ''LHR'') (ustr ''HND'')) = []"
proof -
  have a: "llm_invoke down_world (ustr ''Tokyo'') 3 (ustr ''April'') = Inl ServiceError"
    by (simp add: down_world_def)
  have b: "fetch_json (respond down_world rq) = Inl ConnectionError" for rq
    by (simp add: down_world_def)
  have c: "get_weather_data down_world (ustr ''Tokyo'') =
      ([Request (WeatherReq (ustr ''Tokyo'')),
        StError ''Error fetching weather data: '' ConnectionError], JObj [])"
    by (simp add: get_weather_data_failed b)
  have d: "weather_section (JObj []) = ([], Inr ())"
    by (simp add: weather_section_def)
  from a b c d show ?thesis
    using narrative_failure_aborts [OF a, of "ustr ''London''" "ustr ''Tokyo''" ConnectionError
        _ _ _ "ustr ''LHR''" "ustr ''HND''"]
    by simp
qed

end
